theory Spec2Isabelle
  imports Main "HOL-Library.Sublist"
begin

section \<open>Data model\<close>

text \<open>
  The program (\<^verbatim>\<open>main.go\<close>) is a client of a cluster API. The parts of the API objects it
  reads are modelled as records: a CRD with its scope, group, kind and version list, and a
  generic (unstructured) resource instance with its name, namespace and finalizers.
  Everything else an instance carries is kept, opaque, in \<open>objContent\<close>.
\<close>

datatype ResourceScope = NamespaceScoped | ClusterScoped

record CustomResourceDefinitionVersion =
  Name :: string
  Served :: bool

record CustomResourceDefinition =
  crdName :: string
  Scope :: ResourceScope
  Group :: string
  Kind :: string
  Versions :: "CustomResourceDefinitionVersion list"

record Unstructured =
  objName :: string
  objNamespace :: string
  objFinalizers :: "string list"
  objContent :: "(string \<times> string) list"

definition SetFinalizers :: "Unstructured \<Rightarrow> string list \<Rightarrow> Unstructured" where
  "SetFinalizers obj fs = obj\<lparr>objFinalizers := fs\<rparr>"

subsection \<open>Errors\<close>

text \<open>
  A Go \<^verbatim>\<open>error\<close> is either a base error, with the class the program can test for
  (\<^verbatim>\<open>kerrors.IsNotFound\<close>, \<^verbatim>\<open>wait.Interrupted\<close>) and its message, or an error wrapped by
  \<^verbatim>\<open>fmt.Errorf("...: %w", err)\<close>. Both tests look through the wrapping, as
  \<^verbatim>\<open>errors.As\<close> and \<^verbatim>\<open>errors.Is\<close> do.
\<close>

datatype errclass = NotFound | ContextDone | Other

datatype error = BaseError errclass string | Errorf string error

fun Error :: "error \<Rightarrow> string" where
  "Error (BaseError k msg) = msg"
| "Error (Errorf msg err) = msg @ Error err"

fun IsNotFound :: "error \<Rightarrow> bool" where
  "IsNotFound (BaseError k msg) = (k = NotFound)"
| "IsNotFound (Errorf msg err) = IsNotFound err"

fun errIsContextDone :: "error \<Rightarrow> bool" where
  "errIsContextDone (BaseError k msg) = (k = ContextDone)"
| "errIsContextDone (Errorf msg err) = errIsContextDone err"

text \<open>\<^verbatim>\<open>wait.Interrupted(err)\<close>: false for \<^verbatim>\<open>nil\<close>, true for a timeout or a cancelled
  context, whoever returned it.\<close>

definition Interrupted :: "error option \<Rightarrow> bool" where
  "Interrupted err = (case err of None \<Rightarrow> False | Some e \<Rightarrow> errIsContextDone e)"

definition errNoServedVersion :: error where
  "errNoServedVersion = BaseError Other ''CRD has no version marked as `served`''"

definition errDeadlineExceeded :: error where
  "errDeadlineExceeded = BaseError ContextDone ''context deadline exceeded''"

definition errContextCanceled :: error where
  "errContextCanceled = BaseError ContextDone ''context canceled''"

text \<open>\<^verbatim>\<open>ctx.Err()\<close> of a context that is done: it was cancelled, or its deadline has passed.\<close>

datatype ctxerr = Canceled | DeadlineExceeded

fun ctxError :: "ctxerr \<Rightarrow> error" where
  "ctxError Canceled = errContextCanceled"
| "ctxError DeadlineExceeded = errDeadlineExceeded"

subsection \<open>API version resolution\<close>

text \<open>\<^verbatim>\<open>getAPIVersion\<close>: the loop over \<^verbatim>\<open>crd.Spec.Versions\<close> returns at the first served one.\<close>

fun firstServed :: "string \<Rightarrow> CustomResourceDefinitionVersion list \<Rightarrow> error + string" where
  "firstServed grp [] = Inl errNoServedVersion"
| "firstServed grp (version # rest) =
     (if Served version then Inr (grp @ ''/'' @ Name version)
      else firstServed grp rest)"

definition getAPIVersion :: "CustomResourceDefinition \<Rightarrow> error + string" where
  "getAPIVersion crd = firstServed (Group crd) (Versions crd)"

section \<open>The API client and the observable trace\<close>

text \<open>
  The cluster is an external collaborator: a client over some cluster state \<open>'w\<close>, each call
  returning its answer and the cluster state after it. \<^verbatim>\<open>Get\<close> fills the CRD only when it
  succeeds, and the program only reads it then. The two list calls return the error together
  with the items of the list object after the call, because the program goes on to range over
  the list after an error it tolerates. The options of an object list are the namespace of
  \<^verbatim>\<open>ListOptions{Namespace: ...}\<close>, or none.

  Time and the context of the process belong to the same environment. \<open>contextWait\<close> is the
  wait of a poll between two conditions: given the interval of the timer and the timeout of
  the poll, it blocks until the timer ticks, and answers nothing, or until the context of
  the poll is done first (the timeout has passed, or the context of the process has been
  cancelled), and answers how.
\<close>

record 'w Client =
  clientGet :: "string \<Rightarrow> 'w \<Rightarrow> (error + CustomResourceDefinition) \<times> 'w"
  clientDelete :: "CustomResourceDefinition \<Rightarrow> 'w \<Rightarrow> error option \<times> 'w"
  clientListNamespaces :: "'w \<Rightarrow> (error option \<times> string list) \<times> 'w"
  clientListObjects ::
    "string \<Rightarrow> string \<Rightarrow> string option \<Rightarrow> 'w \<Rightarrow> (error option \<times> Unstructured list) \<times> 'w"
  clientPatch :: "Unstructured \<Rightarrow> Unstructured \<Rightarrow> 'w \<Rightarrow> error option \<times> 'w"
  contextWait :: "nat \<Rightarrow> nat \<Rightarrow> 'w \<Rightarrow> ctxerr option \<times> 'w"

text \<open>
  Every client call and every logger call is appended to a trace, in program order. A call is
  recorded with the error it returned. \<open>CallPatch obj oldObj\<close> is
  \<^verbatim>\<open>client.Patch(ctx, &obj, MergeFrom(oldObj))\<close>. The suspensions are recorded too:
  \<open>Wait interval timeout answer\<close> is one wait of a poll with that interval and timeout, and
  \<open>Sleep d\<close> is \<^verbatim>\<open>time.Sleep(d)\<close>. Durations are in nanoseconds, as \<^verbatim>\<open>time.Duration\<close>.
\<close>

datatype call =
    CallGet string
  | CallDelete CustomResourceDefinition
  | CallListNamespaces
  | CallListObjects string string "string option"
  | CallPatch Unstructured Unstructured

datatype level = DebugLevel | InfoLevel | WarnLevel | ErrorLevel | FatalLevel

type_synonym fields = "(string \<times> string) list"

datatype event =
    Call call "error option"
  | Log level fields string
  | Wait nat nat "ctxerr option"
  | Sleep nat

record 'w state =
  world :: 'w
  trace :: "event list"

definition emit :: "event \<Rightarrow> 'w state \<Rightarrow> 'w state" where
  "emit e s = s\<lparr>trace := trace s @ [e]\<rparr>"

definition logf :: "level \<Rightarrow> fields \<Rightarrow> string \<Rightarrow> 'w state \<Rightarrow> 'w state" where
  "logf lvl lg msg s = emit (Log lvl lg msg) s"

definition Get ::
  "'w Client \<Rightarrow> string \<Rightarrow> 'w state \<Rightarrow> (error + CustomResourceDefinition) \<times> 'w state" where
  "Get c name s =
     (case clientGet c name (world s) of
        (Inl err, w) \<Rightarrow> (Inl err, emit (Call (CallGet name) (Some err)) (s\<lparr>world := w\<rparr>))
      | (Inr crd, w) \<Rightarrow> (Inr crd, emit (Call (CallGet name) None) (s\<lparr>world := w\<rparr>)))"

definition Delete ::
  "'w Client \<Rightarrow> CustomResourceDefinition \<Rightarrow> 'w state \<Rightarrow> error option \<times> 'w state" where
  "Delete c crd s =
     (case clientDelete c crd (world s) of
        (err, w) \<Rightarrow> (err, emit (Call (CallDelete crd) err) (s\<lparr>world := w\<rparr>)))"

definition ListNamespaces ::
  "'w Client \<Rightarrow> 'w state \<Rightarrow> (error option \<times> string list) \<times> 'w state" where
  "ListNamespaces c s =
     (case clientListNamespaces c (world s) of
        ((err, items), w) \<Rightarrow> ((err, items), emit (Call CallListNamespaces err) (s\<lparr>world := w\<rparr>)))"

definition ListObjects ::
  "'w Client \<Rightarrow> string \<Rightarrow> string \<Rightarrow> string option \<Rightarrow> 'w state
     \<Rightarrow> (error option \<times> Unstructured list) \<times> 'w state" where
  "ListObjects c apiVersion kind opts s =
     (case clientListObjects c apiVersion kind opts (world s) of
        ((err, items), w) \<Rightarrow>
          ((err, items), emit (Call (CallListObjects apiVersion kind opts) err) (s\<lparr>world := w\<rparr>)))"

definition Patch ::
  "'w Client \<Rightarrow> Unstructured \<Rightarrow> Unstructured \<Rightarrow> 'w state \<Rightarrow> error option \<times> 'w state" where
  "Patch c obj oldObj s =
     (case clientPatch c obj oldObj (world s) of
        (err, w) \<Rightarrow> (err, emit (Call (CallPatch obj oldObj) err) (s\<lparr>world := w\<rparr>)))"

definition waitTick ::
  "'w Client \<Rightarrow> nat \<Rightarrow> nat \<Rightarrow> 'w state \<Rightarrow> ctxerr option \<times> 'w state" where
  "waitTick c interval timeout s =
     (case contextWait c interval timeout (world s) of
        (ended, w) \<Rightarrow> (ended, emit (Wait interval timeout ended) (s\<lparr>world := w\<rparr>)))"

section \<open>The stuck-resource sweep\<close>

text \<open>The three bytes of the ellipsis that ends the \<^verbatim>\<open>Nuking\<close> message, in UTF-8.\<close>

definition msgNuking :: string where
  "msgNuking = ''Nuking'' @ [CHR 0xE2, CHR 0x80, CHR 0xA6]"

definition objIdentOf :: "Unstructured \<Rightarrow> string" where
  "objIdentOf obj =
     (if length (objNamespace obj) > 0 then objNamespace obj @ ''/'' @ objName obj
      else objName obj)"

text \<open>
  The loop over \<^verbatim>\<open>objectList.Items\<close> of \<^verbatim>\<open>removeResourcesWithOpts\<close>: an instance without
  finalizers is skipped, any other is patched to have none, and the first failing patch
  returns.
\<close>

fun sweepItems ::
  "'w Client \<Rightarrow> fields \<Rightarrow> Unstructured list \<Rightarrow> 'w state \<Rightarrow> error option \<times> 'w state" where
  "sweepItems c lg [] s = (None, s)"
| "sweepItems c lg (obj # rest) s =
     (if length (objFinalizers obj) = 0 then sweepItems c lg rest s
      else
        let objIdent = objIdentOf obj;
            s1 = logf DebugLevel (lg @ [(''resource'', objIdent)]) msgNuking s;
            oldObj = obj
        in case Patch c (SetFinalizers obj []) oldObj s1 of
             (Some err, s2) \<Rightarrow> (Some (Errorf (''failed to delete '' @ objIdent @ '': '') err), s2)
           | (None, s2) \<Rightarrow> sweepItems c lg rest s2)"

text \<open>\<^verbatim>\<open>removeResourcesWithOpts\<close> (lines 367-402).\<close>

definition removeResourcesWithOpts ::
  "'w Client \<Rightarrow> fields \<Rightarrow> CustomResourceDefinition \<Rightarrow> string option \<Rightarrow> 'w state
     \<Rightarrow> error option \<times> 'w state" where
  "removeResourcesWithOpts c lg crd opts s =
     (case getAPIVersion crd of
        Inl err \<Rightarrow> (Some err, s)
      | Inr apiVersion \<Rightarrow>
          (case ListObjects c apiVersion (Kind crd) opts s of
             ((Some err, items), s1) \<Rightarrow>
               if \<not> IsNotFound err then (Some (Errorf ''failed to list objects: '' err), s1)
               else sweepItems c lg items s1
           | ((None, items), s1) \<Rightarrow> sweepItems c lg items s1))"

text \<open>The loop over \<^verbatim>\<open>nsList.Items\<close> of \<^verbatim>\<open>removeResources\<close>.\<close>

fun sweepNamespaces ::
  "'w Client \<Rightarrow> fields \<Rightarrow> CustomResourceDefinition \<Rightarrow> string list \<Rightarrow> 'w state
     \<Rightarrow> error option \<times> 'w state" where
  "sweepNamespaces c lg crd [] s = (None, s)"
| "sweepNamespaces c lg crd (namespace # rest) s =
     (case removeResourcesWithOpts c lg crd (Some namespace) s of
        (Some err, s1) \<Rightarrow> (Some err, s1)
      | (None, s1) \<Rightarrow> sweepNamespaces c lg crd rest s1)"

text \<open>\<^verbatim>\<open>removeResources\<close> (lines 344-365).\<close>

definition removeResources ::
  "'w Client \<Rightarrow> fields \<Rightarrow> CustomResourceDefinition \<Rightarrow> 'w state \<Rightarrow> error option \<times> 'w state" where
  "removeResources c lg crd s =
     (if Scope crd = NamespaceScoped then
        (case ListNamespaces c s of
           ((Some err, items), s1) \<Rightarrow>
             if \<not> IsNotFound err then (Some (Errorf ''failed to list namespaces: '' err), s1)
             else sweepNamespaces c lg crd items s1
         | ((None, items), s1) \<Rightarrow> sweepNamespaces c lg crd items s1)
      else removeResourcesWithOpts c lg crd None s)"

section \<open>The convergence wait\<close>

text \<open>
  \<^verbatim>\<open>wait.PollUntilContextTimeout(ctx, interval, timeout, immediate, condition)\<close> belongs to
  the client library. It puts the timeout on the context and starts a timer of the
  interval. When \<open>immediate\<close> is set it runs the condition at once. Then it waits, again and
  again, for the timer or for the context: when the context is done first it returns
  \<^verbatim>\<open>ctx.Err()\<close>, and at a tick it runs the condition. It stops at the first condition that
  reports done or returns an error, and returns that error. How many ticks come before the
  context is done is for the environment to say, at each wait; but a timer of the interval
  ticks no more than \<open>timeout div interval\<close> times before the timeout, so after that many
  ticks the next wait ends with the deadline.
\<close>

definition Millisecond :: nat where
  "Millisecond = 1000000"

definition Second :: nat where
  "Second = 1000 * Millisecond"

fun pollTicks ::
  "nat \<Rightarrow> 'w Client \<Rightarrow> nat \<Rightarrow> nat \<Rightarrow> ('w state \<Rightarrow> (bool \<times> error option) \<times> 'w state)
     \<Rightarrow> 'w state \<Rightarrow> error option \<times> 'w state" where
  "pollTicks 0 c interval timeout condition s =
     (Some (ctxError DeadlineExceeded), emit (Wait interval timeout (Some DeadlineExceeded)) s)"
| "pollTicks (Suc n) c interval timeout condition s =
     (case waitTick c interval timeout s of
        (Some ended, s1) \<Rightarrow> (Some (ctxError ended), s1)
      | (None, s1) \<Rightarrow>
          (case condition s1 of
             ((ok, Some err), s2) \<Rightarrow> (Some err, s2)
           | ((ok, None), s2) \<Rightarrow>
               if ok then (None, s2) else pollTicks n c interval timeout condition s2))"

definition PollUntilContextTimeout ::
  "'w Client \<Rightarrow> nat \<Rightarrow> nat \<Rightarrow> bool \<Rightarrow> ('w state \<Rightarrow> (bool \<times> error option) \<times> 'w state)
     \<Rightarrow> 'w state \<Rightarrow> error option \<times> 'w state" where
  "PollUntilContextTimeout c interval timeout immediate condition s =
     (if immediate then
        (case condition s of
           ((ok, Some err), s1) \<Rightarrow> (Some err, s1)
         | ((ok, None), s1) \<Rightarrow>
             if ok then (None, s1)
             else pollTicks (timeout div interval) c interval timeout condition s1)
      else pollTicks (timeout div interval) c interval timeout condition s)"

text \<open>The condition \<^verbatim>\<open>nukeCRD\<close> polls with (lines 323-334).\<close>

definition crdGone :: "'w Client \<Rightarrow> string \<Rightarrow> 'w state \<Rightarrow> (bool \<times> error option) \<times> 'w state" where
  "crdGone c name s =
     (case Get c name s of
        (Inr crd, s1) \<Rightarrow> ((False, None), s1)
      | (Inl err, s1) \<Rightarrow>
          if IsNotFound err then ((True, None), s1) else ((False, Some err), s1))"

section \<open>Nuking one CRD, and all of them\<close>

definition msgStillExists :: string where
  "msgStillExists =
     ''CRD still exists, some resources might be blocked by owner references to them.''"

text \<open>\<^verbatim>\<open>nukeCRD\<close> (lines 298-342). \<open>lg\<close> is the fields of the logger it is given.\<close>

definition nukeCRD ::
  "'w Client \<Rightarrow> fields \<Rightarrow> string \<Rightarrow> 'w state \<Rightarrow> error option \<times> 'w state" where
  "nukeCRD c lg name s =
     (case Get c name (logf InfoLevel lg msgNuking s) of
        (Inl err, s1) \<Rightarrow>
          if IsNotFound err then (None, logf DebugLevel lg ''CRD does not exist.'' s1)
          else (Some (Errorf ''failed to retrieve CRD: '' err), s1)
      | (Inr crd, s1) \<Rightarrow>
          (case Delete c crd s1 of
             (Some err, s2) \<Rightarrow> (Some (Errorf ''failed to delete CRD resource: '' err), s2)
           | (None, s2) \<Rightarrow>
               (case removeResources c lg crd s2 of
                  (Some err, s3) \<Rightarrow> (Some err, s3)
                | (None, s3) \<Rightarrow>
                    (case PollUntilContextTimeout c (100 * Millisecond) (5 * Second) True
                            (crdGone c name) s3 of
                       (err, s4) \<Rightarrow>
                         if Interrupted err then (None, logf WarnLevel lg msgStillExists s4)
                         else (case err of
                                 Some e \<Rightarrow>
                                   (Some (Errorf ''failed to check final CRD existence: '' e), s4)
                               | None \<Rightarrow> (None, s4))))))"

text \<open>
  \<^verbatim>\<open>strings.ToLower\<close>, for ASCII input only: the letters A to Z are lowered and every
  other byte is kept. Go also lowers the letters outside ASCII, which this model does not;
  the names of CRDs are DNS names and have none.
\<close>

definition ToLower :: "string \<Rightarrow> string" where
  "ToLower str =
     map (\<lambda>ch. case map_of (zip ''ABCDEFGHIJKLMNOPQRSTUVWXYZ'' ''abcdefghijklmnopqrstuvwxyz'') ch of
                 Some l \<Rightarrow> l | None \<Rightarrow> ch) str"

text \<open>
  The loop of \<^verbatim>\<open>main\<close> over the arguments (lines 281-289), with its variable
  \<^verbatim>\<open>success\<close>.
\<close>

fun nukeAll :: "'w Client \<Rightarrow> string list \<Rightarrow> bool \<Rightarrow> 'w state \<Rightarrow> bool \<times> 'w state" where
  "nukeAll c [] success s = (success, s)"
| "nukeAll c (arg # rest) success s =
     (let name = ToLower arg; crdLog = [(''crd'', name)]
      in case nukeCRD c crdLog name s of
           (Some err, s1) \<Rightarrow>
             nukeAll c rest True (logf ErrorLevel crdLog (''Failed to nuke: '' @ Error err) s1)
         | (None, s1) \<Rightarrow> nukeAll c rest success s1)"

text \<open>
  \<^verbatim>\<open>main\<close> from the check of the arguments on (lines 261-295), given the client it has
  built: the result is the exit status of the process (\<^verbatim>\<open>log.Fatal\<close> and
  \<^verbatim>\<open>os.Exit(1)\<close> exit with 1, returning from \<^verbatim>\<open>main\<close> exits with 0).
\<close>

definition main :: "'w Client \<Rightarrow> string list \<Rightarrow> 'w state \<Rightarrow> nat \<times> 'w state" where
  "main c args s =
     (if length args = 0 then (1, logf FatalLevel [] ''No CRD names provided.'' s)
      else
        (case nukeAll c args False s of
           (success, s1) \<Rightarrow>
             if success then (0, logf InfoLevel [] ''Everything nuked successfully.'' s1)
             else (1, s1)))"

section \<open>The older variant\<close>

text \<open>
  \<^verbatim>\<open>main.go\<close> comes in two versions. The definitions above follow the newer one (lines
  185-412), and the properties below are about it. The older one (lines 1-184) has the same
  \<^verbatim>\<open>getAPIVersion\<close>, the same loop over the instances and the same \<^verbatim>\<open>main\<close>; it differs in
  three places: every error of a list call is fatal, the sweep of a NamespaceScoped CRD goes
  on to an unscoped sweep after the namespaces, and the wait is one fetch after a sleep of
  three seconds.
\<close>

text \<open>\<^verbatim>\<open>removeResourcesWithOpts\<close> (lines 139-174).\<close>

definition removeResourcesWithOpts_v1 ::
  "'w Client \<Rightarrow> fields \<Rightarrow> CustomResourceDefinition \<Rightarrow> string option \<Rightarrow> 'w state
     \<Rightarrow> error option \<times> 'w state" where
  "removeResourcesWithOpts_v1 c lg crd opts s =
     (case getAPIVersion crd of
        Inl err \<Rightarrow> (Some err, s)
      | Inr apiVersion \<Rightarrow>
          (case ListObjects c apiVersion (Kind crd) opts s of
             ((Some err, items), s1) \<Rightarrow> (Some (Errorf ''failed to list objects: '' err), s1)
           | ((None, items), s1) \<Rightarrow> sweepItems c lg items s1))"

fun sweepNamespaces_v1 ::
  "'w Client \<Rightarrow> fields \<Rightarrow> CustomResourceDefinition \<Rightarrow> string list \<Rightarrow> 'w state
     \<Rightarrow> error option \<times> 'w state" where
  "sweepNamespaces_v1 c lg crd [] s = (None, s)"
| "sweepNamespaces_v1 c lg crd (namespace # rest) s =
     (case removeResourcesWithOpts_v1 c lg crd (Some namespace) s of
        (Some err, s1) \<Rightarrow> (Some err, s1)
      | (None, s1) \<Rightarrow> sweepNamespaces_v1 c lg crd rest s1)"

text \<open>\<^verbatim>\<open>removeResources\<close> (lines 118-137).\<close>

definition removeResources_v1 ::
  "'w Client \<Rightarrow> fields \<Rightarrow> CustomResourceDefinition \<Rightarrow> 'w state \<Rightarrow> error option \<times> 'w state" where
  "removeResources_v1 c lg crd s =
     (if Scope crd = NamespaceScoped then
        (case ListNamespaces c s of
           ((Some err, items), s1) \<Rightarrow> (Some (Errorf ''failed to list namespaces: '' err), s1)
         | ((None, items), s1) \<Rightarrow>
             (case sweepNamespaces_v1 c lg crd items s1 of
                (Some err, s2) \<Rightarrow> (Some err, s2)
              | (None, s2) \<Rightarrow> removeResourcesWithOpts_v1 c lg crd None s2))
      else removeResourcesWithOpts_v1 c lg crd None s)"

text \<open>\<^verbatim>\<open>nukeCRD\<close> (lines 79-116).\<close>

definition nukeCRD_v1 ::
  "'w Client \<Rightarrow> fields \<Rightarrow> string \<Rightarrow> 'w state \<Rightarrow> error option \<times> 'w state" where
  "nukeCRD_v1 c lg name s =
     (case Get c name (logf InfoLevel lg msgNuking s) of
        (Inl err, s1) \<Rightarrow>
          if IsNotFound err then (None, logf DebugLevel lg ''CRD does not exist.'' s1)
          else (Some (Errorf ''failed to retrieve CRD: '' err), s1)
      | (Inr crd, s1) \<Rightarrow>
          (case Delete c crd s1 of
             (Some err, s2) \<Rightarrow> (Some (Errorf ''failed to delete CRD resource: '' err), s2)
           | (None, s2) \<Rightarrow>
               (case removeResources_v1 c lg crd s2 of
                  (Some err, s3) \<Rightarrow> (Some err, s3)
                | (None, s3) \<Rightarrow>
                    (case Get c name (emit (Sleep (3 * Second)) s3) of
                       (Inl err, s4) \<Rightarrow>
                         if \<not> IsNotFound err
                         then (Some (Errorf ''failed to check final CRD existence: '' err), s4)
                         else (None, s4)
                     | (Inr crd', s4) \<Rightarrow> (None, logf WarnLevel lg msgStillExists s4)))))"

section \<open>Merge patches\<close>

text \<open>
  \<^verbatim>\<open>MergeFrom(oldObj)\<close> belongs to the client library: the patch it sends for \<open>obj\<close> names
  the fields in which \<open>obj\<close> differs from \<open>oldObj\<close>, with their new values, and the server
  sets those fields and no other. The model compares the four parts of an instance.
\<close>

record MergePatch =
  patchName :: "string option"
  patchNamespace :: "string option"
  patchFinalizers :: "string list option"
  patchContent :: "(string \<times> string) list option"

definition changed :: "'a \<Rightarrow> 'a \<Rightarrow> 'a option" where
  "changed old new = (if new = old then None else Some new)"

definition MergeFrom :: "Unstructured \<Rightarrow> Unstructured \<Rightarrow> MergePatch" where
  "MergeFrom oldObj obj =
     \<lparr>patchName = changed (objName oldObj) (objName obj),
      patchNamespace = changed (objNamespace oldObj) (objNamespace obj),
      patchFinalizers = changed (objFinalizers oldObj) (objFinalizers obj),
      patchContent = changed (objContent oldObj) (objContent obj)\<rparr>"

definition applyPatch :: "MergePatch \<Rightarrow> Unstructured \<Rightarrow> Unstructured" where
  "applyPatch p obj =
     \<lparr>objName = (case patchName p of Some v \<Rightarrow> v | None \<Rightarrow> objName obj),
      objNamespace = (case patchNamespace p of Some v \<Rightarrow> v | None \<Rightarrow> objNamespace obj),
      objFinalizers = (case patchFinalizers p of Some v \<Rightarrow> v | None \<Rightarrow> objFinalizers obj),
      objContent = (case patchContent p of Some v \<Rightarrow> v | None \<Rightarrow> objContent obj)\<rparr>"

section \<open>Reading a trace\<close>

text \<open>The events a run has appended to the trace of the state it started from.\<close>

definition newEvents :: "'w state \<Rightarrow> 'w state \<Rightarrow> event list" where
  "newEvents s s' = drop (length (trace s)) (trace s')"

text \<open>An error the two list calls of the sweep let pass: none, or not-found.\<close>

definition tolerated :: "error option \<Rightarrow> bool" where
  "tolerated err = (case err of None \<Rightarrow> True | Some e \<Rightarrow> IsNotFound e)"

text \<open>The list calls of a trace, and its patch calls as pairs of the patched object and the
  original it is compared with.\<close>

fun listCalls :: "event list \<Rightarrow> call list" where
  "listCalls [] = []"
| "listCalls (Call CallListNamespaces err # tr) = CallListNamespaces # listCalls tr"
| "listCalls (Call (CallListObjects apiVersion kind opts) err # tr) =
     CallListObjects apiVersion kind opts # listCalls tr"
| "listCalls (ev # tr) = listCalls tr"

fun patchCalls :: "event list \<Rightarrow> (Unstructured \<times> Unstructured) list" where
  "patchCalls [] = []"
| "patchCalls (Call (CallPatch obj oldObj) err # tr) = (obj, oldObj) # patchCalls tr"
| "patchCalls (ev # tr) = patchCalls tr"

text \<open>An instance is stuck when it has finalizers; the patch call the sweep makes for it; the
  merge patch that names the finalizers only.\<close>

definition stuck :: "Unstructured \<Rightarrow> bool" where
  "stuck obj = (objFinalizers obj \<noteq> [])"

definition finalizersCleared :: "Unstructured \<Rightarrow> Unstructured \<times> Unstructured" where
  "finalizersCleared oldObj = (oldObj\<lparr>objFinalizers := []\<rparr>, oldObj)"

definition onlyFinalizers :: MergePatch where
  "onlyFinalizers =
     \<lparr>patchName = None, patchNamespace = None, patchFinalizers = Some [], patchContent = None\<rparr>"

text \<open>A patch call that failed. A run stops at a failed patch when its trace either has none,
  or ends with one and the result is the error that names the instance.\<close>

fun failedPatch :: "event \<Rightarrow> bool" where
  "failedPatch (Call (CallPatch obj oldObj) (Some err)) = True"
| "failedPatch _ = False"

definition patchAbort :: "error option \<Rightarrow> event list \<Rightarrow> bool" where
  "patchAbort r tr =
     ((\<forall>ev \<in> set tr. \<not> failedPatch ev)
      \<or> (\<exists>pre obj oldObj err.
            tr = pre @ [Call (CallPatch obj oldObj) (Some err)]
            \<and> (\<forall>ev \<in> set pre. \<not> failedPatch ev)
            \<and> r = Some (Errorf (''failed to delete '' @ objIdentOf oldObj @ '': '') err)))"

text \<open>The results of \<open>nukeCRD\<close> for the arguments of \<open>main\<close>, one per argument, in order.\<close>

fun nukeResults :: "'w Client \<Rightarrow> string list \<Rightarrow> 'w state \<Rightarrow> error option list" where
  "nukeResults c [] s = []"
| "nukeResults c (arg # rest) s =
     (let name = ToLower arg; crdLog = [(''crd'', name)]
      in case nukeCRD c crdLog name s of
           (Some err, s1) \<Rightarrow>
             Some err
             # nukeResults c rest (logf ErrorLevel crdLog (''Failed to nuke: '' @ Error err) s1)
         | (None, s1) \<Rightarrow> None # nukeResults c rest s1)"

text \<open>A cluster in which a CRD that a fetch has found absent is absent at the next fetch too.\<close>

definition staysAbsent :: "'w Client \<Rightarrow> string \<Rightarrow> bool" where
  "staysAbsent c name =
     (\<forall>w e w'. clientGet c name w = (Inl e, w') \<longrightarrow> IsNotFound e \<longrightarrow>
        (\<exists>e' w''. clientGet c name w' = (Inl e', w'') \<and> IsNotFound e'))"

section \<open>A small cluster to run the program on\<close>

text \<open>
  An in-memory cluster with one CRD at most, used for the concrete runs below. Deleting the
  CRD marks it as being deleted; from then on every instance without finalizers is
  collected, and the CRD goes once no instance is left, unless something else blocks it.
  The calls are counted, from 0, and \<open>clFaults\<close> makes chosen calls fail. \<open>clTicks\<close> is the
  number of ticks a poll gets before the context of the process is cancelled, if it is to be
  cancelled at all.
\<close>

record cluster =
  clCRD :: "CustomResourceDefinition option"
  clDeleting :: bool
  clBlocked :: bool
  clNamespaces :: "string list"
  clObjects :: "Unstructured list"
  clFaults :: "(nat \<times> error) list"
  clClock :: nat
  clTicks :: "nat option"

definition errAbsent :: error where
  "errAbsent = BaseError NotFound ''not found''"

definition errRefused :: error where
  "errRefused = BaseError Other ''connection refused''"

definition errCanceled :: error where
  "errCanceled = BaseError ContextDone ''context canceled''"

definition settle :: "cluster \<Rightarrow> cluster" where
  "settle w =
     (if clDeleting w then
        (let objs = filter (\<lambda>obj. objFinalizers obj \<noteq> []) (clObjects w)
         in w\<lparr>clObjects := objs,
              clCRD := (if objs = [] \<and> \<not> clBlocked w then None else clCRD w)\<rparr>)
      else w)"

definition fault :: "cluster \<Rightarrow> error option \<times> cluster" where
  "fault w = (map_of (clFaults w) (clClock w), w\<lparr>clClock := Suc (clClock w)\<rparr>)"

definition servesCRD :: "cluster \<Rightarrow> string \<Rightarrow> CustomResourceDefinition option" where
  "servesCRD w name =
     (case clCRD w of
        Some crd \<Rightarrow> if crdName crd = name then Some crd else None
      | None \<Rightarrow> None)"

definition fakeGet :: "string \<Rightarrow> cluster \<Rightarrow> (error + CustomResourceDefinition) \<times> cluster" where
  "fakeGet name w0 =
     (case fault w0 of
        (Some err, w) \<Rightarrow> (Inl err, w)
      | (None, w) \<Rightarrow>
          (case servesCRD w name of Some crd \<Rightarrow> (Inr crd, w) | None \<Rightarrow> (Inl errAbsent, w)))"

definition fakeDelete :: "CustomResourceDefinition \<Rightarrow> cluster \<Rightarrow> error option \<times> cluster" where
  "fakeDelete crd w0 =
     (case fault w0 of
        (Some err, w) \<Rightarrow> (Some err, w)
      | (None, w) \<Rightarrow>
          (case servesCRD w (crdName crd) of
             Some _ \<Rightarrow> (None, settle (w\<lparr>clDeleting := True\<rparr>))
           | None \<Rightarrow> (Some errAbsent, w)))"

definition fakeListNamespaces :: "cluster \<Rightarrow> (error option \<times> string list) \<times> cluster" where
  "fakeListNamespaces w0 =
     (case fault w0 of
        (Some err, w) \<Rightarrow> ((Some err, []), w)
      | (None, w) \<Rightarrow> ((None, clNamespaces w), w))"

definition inScope :: "string option \<Rightarrow> Unstructured \<Rightarrow> bool" where
  "inScope opts obj = (case opts of None \<Rightarrow> True | Some ns \<Rightarrow> objNamespace obj = ns)"

definition fakeListObjects ::
  "string \<Rightarrow> string \<Rightarrow> string option \<Rightarrow> cluster \<Rightarrow> (error option \<times> Unstructured list) \<times> cluster" where
  "fakeListObjects apiVersion kind opts w0 =
     (case fault w0 of
        (Some err, w) \<Rightarrow> ((Some err, []), w)
      | (None, w) \<Rightarrow>
          (case clCRD w of
             Some crd \<Rightarrow>
               if getAPIVersion crd = Inr apiVersion \<and> Kind crd = kind
               then ((None, filter (inScope opts) (clObjects w)), w)
               else ((Some errAbsent, []), w)
           | None \<Rightarrow> ((Some errAbsent, []), w)))"

definition sameObject :: "Unstructured \<Rightarrow> Unstructured \<Rightarrow> bool" where
  "sameObject a b = (objNamespace a = objNamespace b \<and> objName a = objName b)"

definition fakePatch :: "Unstructured \<Rightarrow> Unstructured \<Rightarrow> cluster \<Rightarrow> error option \<times> cluster" where
  "fakePatch obj oldObj w0 =
     (case fault w0 of
        (Some err, w) \<Rightarrow> (Some err, w)
      | (None, w) \<Rightarrow>
          if list_ex (sameObject obj) (clObjects w)
          then (None, settle (w\<lparr>clObjects :=
                  map (\<lambda>x. if sameObject obj x then applyPatch (MergeFrom oldObj obj) x else x)
                    (clObjects w)\<rparr>))
          else (Some errAbsent, w))"

definition fakeWait :: "nat \<Rightarrow> nat \<Rightarrow> cluster \<Rightarrow> ctxerr option \<times> cluster" where
  "fakeWait interval timeout w =
     (case clTicks w of
        None \<Rightarrow> (None, w)
      | Some n \<Rightarrow> if n = 0 then (Some Canceled, w) else (None, w\<lparr>clTicks := Some (n - 1)\<rparr>))"

definition fakeClient :: "cluster Client" where
  "fakeClient =
     \<lparr>clientGet = fakeGet, clientDelete = fakeDelete,
      clientListNamespaces = fakeListNamespaces, clientListObjects = fakeListObjects,
      clientPatch = fakePatch, contextWait = fakeWait\<rparr>"

text \<open>The same cluster with a fetch that never fails by itself.\<close>

definition steadyGet :: "string \<Rightarrow> cluster \<Rightarrow> (error + CustomResourceDefinition) \<times> cluster" where
  "steadyGet name w =
     (case servesCRD w name of Some crd \<Rightarrow> (Inr crd, w) | None \<Rightarrow> (Inl errAbsent, w))"

definition steadyClient :: "cluster Client" where
  "steadyClient = fakeClient\<lparr>clientGet := steadyGet\<rparr>"

definition start :: "cluster \<Rightarrow> cluster state" where
  "start w = \<lparr>world = w, trace = []\<rparr>"

text \<open>The CRDs, the instances and the clusters of the concrete runs.\<close>

definition widgets :: CustomResourceDefinition where
  "widgets =
     \<lparr>crdName = ''widgets.example.com'', Scope = NamespaceScoped, Group = ''example.com'',
      Kind = ''Widget'',
      Versions = [\<lparr>Name = ''v1alpha1'', Served = False\<rparr>, \<lparr>Name = ''v1beta1'', Served = True\<rparr>,
                  \<lparr>Name = ''v1'', Served = True\<rparr>]\<rparr>"

definition unserved :: "CustomResourceDefinition \<Rightarrow> CustomResourceDefinition" where
  "unserved crd = crd\<lparr>Versions := map (\<lambda>v. v\<lparr>Served := False\<rparr>) (Versions crd)\<rparr>"

definition clusterWide :: "CustomResourceDefinition \<Rightarrow> CustomResourceDefinition" where
  "clusterWide crd = crd\<lparr>Scope := ClusterScoped\<rparr>"

definition gadgets :: CustomResourceDefinition where
  "gadgets = unserved (clusterWide widgets)"

definition widgetA :: Unstructured where
  "widgetA =
     \<lparr>objName = ''a'', objNamespace = ''ns1'', objFinalizers = [''a.b/finalizer''],
      objContent = [(''spec.size'', ''3'')]\<rparr>"

definition widgetB :: Unstructured where
  "widgetB =
     \<lparr>objName = ''b'', objNamespace = ''ns2'', objFinalizers = [''a.b/finalizer'', ''c.d/other''],
      objContent = []\<rparr>"

definition widgetC :: Unstructured where
  "widgetC = \<lparr>objName = ''c'', objNamespace = ''ns2'', objFinalizers = [], objContent = []\<rparr>"

definition emptyCluster :: cluster where
  "emptyCluster =
     \<lparr>clCRD = None, clDeleting = False, clBlocked = False, clNamespaces = [''ns1'', ''ns2''],
      clObjects = [], clFaults = [], clClock = 0, clTicks = None\<rparr>"

definition widgetCluster :: cluster where
  "widgetCluster = emptyCluster\<lparr>clCRD := Some widgets, clObjects := [widgetA, widgetB, widgetC]\<rparr>"

definition bareCluster :: cluster where
  "bareCluster = emptyCluster\<lparr>clCRD := Some widgets\<rparr>"

definition blockedCluster :: cluster where
  "blockedCluster = bareCluster\<lparr>clBlocked := True\<rparr>"


definition gadgetCluster :: cluster where
  "gadgetCluster = emptyCluster\<lparr>clCRD := Some gadgets\<rparr>"

definition unservedCluster :: cluster where
  "unservedCluster = widgetCluster\<lparr>clCRD := Some (unserved widgets)\<rparr>"

definition desert :: cluster where
  "desert = emptyCluster\<lparr>clCRD := Some (unserved widgets), clNamespaces := []\<rparr>"

definition vanished :: cluster where
  "vanished = emptyCluster\<lparr>clFaults := [(0, errAbsent)]\<rparr>"

definition patchFails :: cluster where
  "patchFails = widgetCluster\<lparr>clFaults := [(4, errRefused)]\<rparr>"

definition firstPatchFails :: cluster where
  "firstPatchFails = widgetCluster\<lparr>clFaults := [(0, errRefused)]\<rparr>"


definition firstGetFails :: cluster where
  "firstGetFails = emptyCluster\<lparr>clFaults := [(0, errRefused)]\<rparr>"

text \<open>The states of a run of \<open>nukeCRD\<close> on such a cluster after its fetch, its delete and its
  sweep; the state after a whole run with the steady fetch; the events of one run on the
  blocked cluster.\<close>

definition fetched :: "cluster \<Rightarrow> cluster state" where
  "fetched w = snd (Get fakeClient ''widgets.example.com'' (logf InfoLevel [] msgNuking (start w)))"

definition deleted :: "cluster \<Rightarrow> cluster state" where
  "deleted w = snd (Delete fakeClient widgets (fetched w))"

definition swept :: "cluster \<Rightarrow> cluster state" where
  "swept w = snd (removeResources fakeClient [] widgets (deleted w))"

definition afterFirstRun :: "cluster state" where
  "afterFirstRun = snd (nukeCRD steadyClient [] ''widgets.example.com'' (start widgetCluster))"

definition blockedRound :: "event list" where
  "blockedRound =
     [Log InfoLevel [] msgNuking,
      Call (CallGet ''widgets.example.com'') None,
      Call (CallDelete widgets) None,
      Call CallListNamespaces None,
      Call (CallListObjects ''example.com/v1beta1'' ''Widget'' (Some ''ns1'')) None,
      Call (CallListObjects ''example.com/v1beta1'' ''Widget'' (Some ''ns2'')) None]
     @ concat (replicate 50 [Call (CallGet ''widgets.example.com'') None,
                             Wait (100 * Millisecond) (5 * Second) None])
     @ [Call (CallGet ''widgets.example.com'') None,
        Wait (100 * Millisecond) (5 * Second) (Some DeadlineExceeded),
        Log WarnLevel [] msgStillExists]"

section \<open>Basic facts about the calls\<close>

lemma world_emit: "world (emit e s) = world s"
  by (simp add: emit_def)

lemma trace_emit: "trace (emit e s) = trace s @ [e]"
  by (simp add: emit_def)

lemma emit_eq: "emit e s = s\<lparr>trace := trace s @ [e]\<rparr>"
  by (simp add: emit_def)

lemma Get_Inl:
  "clientGet c name (world s) = (Inl err, w) \<Longrightarrow>
   Get c name s = (Inl err, s\<lparr>world := w, trace := trace s @ [Call (CallGet name) (Some err)]\<rparr>)"
  by (simp add: Get_def emit_def)

lemma Get_Inr:
  "clientGet c name (world s) = (Inr crd, w) \<Longrightarrow>
   Get c name s = (Inr crd, s\<lparr>world := w, trace := trace s @ [Call (CallGet name) None]\<rparr>)"
  by (simp add: Get_def emit_def)

lemma ListNamespaces_eq:
  "clientListNamespaces c (world s) = ((err, items), w) \<Longrightarrow>
   ListNamespaces c s =
     ((err, items), s\<lparr>world := w, trace := trace s @ [Call CallListNamespaces err]\<rparr>)"
  by (simp add: ListNamespaces_def emit_def)

lemma ListObjects_eq:
  "clientListObjects c apiVersion kind opts (world s) = ((err, items), w) \<Longrightarrow>
   ListObjects c apiVersion kind opts s =
     ((err, items),
      s\<lparr>world := w, trace := trace s @ [Call (CallListObjects apiVersion kind opts) err]\<rparr>)"
  by (simp add: ListObjects_def emit_def)

lemma firstServed_find:
  "firstServed grp vs =
     (case find Served vs of
        Some v \<Rightarrow> Inr (grp @ ''/'' @ Name v)
      | None \<Rightarrow> Inl errNoServedVersion)"
  by (induction vs) simp_all

lemma getAPIVersion_unserved:
  "find Served (Versions crd) = None \<Longrightarrow> getAPIVersion crd = Inl errNoServedVersion"
  by (simp add: getAPIVersion_def firstServed_find)

lemma removeResourcesWithOpts_unserved:
  "find Served (Versions crd) = None \<Longrightarrow>
   removeResourcesWithOpts c lg crd opts s = (Some errNoServedVersion, s)"
  by (simp add: removeResourcesWithOpts_def getAPIVersion_unserved)

lemma sweepNamespaces_unserved:
  "find Served (Versions crd) = None \<Longrightarrow>
   sweepNamespaces c lg crd items s =
     (if items = [] then None else Some errNoServedVersion, s)"
  by (cases items) (simp_all add: removeResourcesWithOpts_unserved)

subsection \<open>Running the program on the small cluster\<close>

lemmas program_defs =
  nukeCRD_def removeResources_def removeResourcesWithOpts_def PollUntilContextTimeout_def
  crdGone_def Get_def Delete_def ListNamespaces_def ListObjects_def Patch_def logf_def emit_def
  objIdentOf_def SetFinalizers_def getAPIVersion_def Interrupted_def waitTick_def
  errContextCanceled_def errDeadlineExceeded_def

lemma fakeClient_sel:
  "clientGet fakeClient = fakeGet" "clientDelete fakeClient = fakeDelete"
  "clientListNamespaces fakeClient = fakeListNamespaces"
  "clientListObjects fakeClient = fakeListObjects" "clientPatch fakeClient = fakePatch"
  "contextWait fakeClient = fakeWait"
  by (simp_all add: fakeClient_def)

lemmas cluster_defs =
  fakeClient_sel fakeGet_def fakeDelete_def fakeListNamespaces_def fakeListObjects_def
  fakePatch_def fakeWait_def fault_def servesCRD_def settle_def inScope_def sameObject_def applyPatch_def
  MergeFrom_def changed_def start_def emptyCluster_def widgetCluster_def widgets_def
  widgetA_def widgetB_def widgetC_def errAbsent_def

lemma pollTicks_numeral:
  "pollTicks (numeral k) c interval timeout condition s =
     (case waitTick c interval timeout s of
        (Some ended, s1) \<Rightarrow> (Some (ctxError ended), s1)
      | (None, s1) \<Rightarrow>
          (case condition s1 of
             ((ok, Some err), s2) \<Rightarrow> (Some err, s2)
           | ((ok, None), s2) \<Rightarrow>
               if ok then (None, s2)
               else pollTicks (pred_numeral k) c interval timeout condition s2))"
  by (simp add: numeral_eq_Suc)

lemma poll_numbers: "100 * Millisecond = 100000000" "5 * Second = 5000000000"
  by (simp_all add: Second_def Millisecond_def)

section \<open>Properties\<close>

subsection \<open>A CRD that does not exist\<close>

lemma nukeCRD_absent:
  assumes "clientGet c name (world s) = (Inl err, w)" and "IsNotFound err"
  shows "nukeCRD c lg name s =
           (None,
            s\<lparr>world := w,
              trace := trace s @ [Log InfoLevel lg msgNuking, Call (CallGet name) (Some err),
                                  Log DebugLevel lg ''CRD does not exist.'']\<rparr>)"
  using assms by (simp add: nukeCRD_def Get_def logf_def emit_def)

text \<open>
  C8. When the initial fetch of the CRD answers not-found, \<open>nukeCRD\<close> returns no error, and
  the run consists of the \<^verbatim>\<open>Nuking\<close> log line, that one fetch and the debug line: no delete
  call, no list call and no patch call is issued.
\<close>

theorem nukeCRD_absent_is_noop:
  assumes "clientGet c name (world s) = (Inl err, w)" and "IsNotFound err"
  shows "nukeCRD c lg name s =
           (None,
            s\<lparr>world := w,
              trace := trace s @ [Log InfoLevel lg msgNuking, Call (CallGet name) (Some err),
                                  Log DebugLevel lg ''CRD does not exist.'']\<rparr>)"
  using assms by (rule nukeCRD_absent)

theorem nukeCRD_absent_is_noop_witness:
  "clientGet fakeClient ''widgets.example.com'' (world (start emptyCluster))
     = (Inl errAbsent, emptyCluster\<lparr>clClock := 1\<rparr>)
   \<and> IsNotFound errAbsent
   \<and> nukeCRD fakeClient [] ''widgets.example.com'' (start emptyCluster)
     = (None,
        \<lparr>world = emptyCluster\<lparr>clClock := 1\<rparr>,
         trace = [Log InfoLevel [] msgNuking,
                  Call (CallGet ''widgets.example.com'') (Some errAbsent),
                  Log DebugLevel [] ''CRD does not exist.'']\<rparr>)"
proof -
  have h1: "clientGet fakeClient ''widgets.example.com'' (world (start emptyCluster))
              = (Inl errAbsent, emptyCluster\<lparr>clClock := 1\<rparr>)"
    by (simp add: fakeClient_def fakeGet_def fault_def servesCRD_def start_def emptyCluster_def)
  have h2: "IsNotFound errAbsent"
    by (simp add: errAbsent_def)
  show ?thesis
    using h1 h2 nukeCRD_absent_is_noop [OF h1 h2, of "[]"] by (simp add: start_def)
qed

subsection \<open>Empty namespace lists and not-found answers\<close>

lemma removeResources_namespaced:
  assumes "Scope crd = NamespaceScoped"
    and "clientListNamespaces c (world s) = ((err, items), w)"
    and "tolerated err"
  shows "removeResources c lg crd s =
           sweepNamespaces c lg crd items
             (s\<lparr>world := w, trace := trace s @ [Call CallListNamespaces err]\<rparr>)"
  using assms
  by (simp add: removeResources_def ListNamespaces_eq tolerated_def split: option.splits)

lemma removeResourcesWithOpts_listed:
  assumes "getAPIVersion crd = Inr av"
    and "clientListObjects c av (Kind crd) opts (world s) = ((err, objs), w)"
    and "tolerated err"
  shows "removeResourcesWithOpts c lg crd opts s =
           sweepItems c lg objs
             (s\<lparr>world := w, trace := trace s @ [Call (CallListObjects av (Kind crd) opts) err]\<rparr>)"
  using assms
  by (simp add: removeResourcesWithOpts_def ListObjects_eq tolerated_def split: option.splits)

text \<open>
  C10. For a NamespaceScoped CRD whose namespace list call answers with no namespace
  (without error, or with the not-found it lets pass), the sweep returns no error right
  after that call: nothing else is issued, and the API version is never asked for, so this
  holds whatever the versions of the CRD are, also when none is served.
\<close>

theorem removeResources_no_namespaces:
  assumes "Scope crd = NamespaceScoped"
    and "clientListNamespaces c (world s) = ((err, []), w)"
    and "tolerated err"
  shows "removeResources c lg crd s =
           (None, s\<lparr>world := w, trace := trace s @ [Call CallListNamespaces err]\<rparr>)"
  using removeResources_namespaced [OF assms] by simp

theorem removeResources_no_namespaces_witness:
  "Scope (unserved widgets) = NamespaceScoped
   \<and> clientListNamespaces fakeClient (world (start desert)) = ((None, []), desert\<lparr>clClock := 1\<rparr>)
   \<and> tolerated None
   \<and> getAPIVersion (unserved widgets) = Inl errNoServedVersion
   \<and> removeResources fakeClient [] (unserved widgets) (start desert) =
       (None, \<lparr>world = desert\<lparr>clClock := 1\<rparr>, trace = [Call CallListNamespaces None]\<rparr>)"
proof -
  have h1: "Scope (unserved widgets) = NamespaceScoped"
    by (simp add: unserved_def widgets_def)
  have h2: "clientListNamespaces fakeClient (world (start desert))
              = ((None, []), desert\<lparr>clClock := 1\<rparr>)"
    by (simp add: fakeClient_def fakeListNamespaces_def fault_def start_def desert_def
        emptyCluster_def)
  have h3: "tolerated None"
    by (simp add: tolerated_def)
  have h4: "getAPIVersion (unserved widgets) = Inl errNoServedVersion"
    by (simp add: getAPIVersion_def unserved_def widgets_def)
  show ?thesis
    using h1 h2 h3 h4 removeResources_no_namespaces [OF h1 h2 h3, of "[]"]
    by (simp add: start_def)
qed

text \<open>
  C3. A list call of the sweep that answers not-found, leaving its list empty, is taken as
  nothing to sweep: the namespace list call of a NamespaceScoped CRD ends the sweep without
  error, the object list call ends the sweep of its scope without error, and in the loop
  over the namespaces the sweep goes on with the next namespace.
\<close>

theorem list_not_found_is_tolerated:
  assumes "IsNotFound e"
  shows "(Scope crd = NamespaceScoped \<longrightarrow>
            clientListNamespaces c (world s) = ((Some e, []), w) \<longrightarrow>
            removeResources c lg crd s =
              (None, s\<lparr>world := w, trace := trace s @ [Call CallListNamespaces (Some e)]\<rparr>))
       \<and> (getAPIVersion crd = Inr av \<longrightarrow>
            clientListObjects c av (Kind crd) opts (world s) = ((Some e, []), w) \<longrightarrow>
            removeResourcesWithOpts c lg crd opts s =
              (None,
               s\<lparr>world := w,
                 trace := trace s @ [Call (CallListObjects av (Kind crd) opts) (Some e)]\<rparr>))
       \<and> (getAPIVersion crd = Inr av \<longrightarrow>
            clientListObjects c av (Kind crd) (Some ns) (world s) = ((Some e, []), w) \<longrightarrow>
            sweepNamespaces c lg crd (ns # rest) s =
              sweepNamespaces c lg crd rest
                (s\<lparr>world := w,
                  trace := trace s @ [Call (CallListObjects av (Kind crd) (Some ns)) (Some e)]\<rparr>))"
proof -
  have t: "tolerated (Some e)"
    using assms by (simp add: tolerated_def)
  show ?thesis
    by (simp add: removeResources_namespaced [OF _ _ t] removeResourcesWithOpts_listed [OF _ _ t])
qed

theorem list_not_found_is_tolerated_witness:
  "IsNotFound errAbsent
   \<and> Scope widgets = NamespaceScoped
   \<and> clientListNamespaces fakeClient (world (start vanished))
       = ((Some errAbsent, []), vanished\<lparr>clClock := 1\<rparr>)
   \<and> removeResources fakeClient [] widgets (start vanished)
       = (None, \<lparr>world = vanished\<lparr>clClock := 1\<rparr>,
                 trace = [Call CallListNamespaces (Some errAbsent)]\<rparr>)
   \<and> getAPIVersion widgets = Inr ''example.com/v1beta1''
   \<and> clientListObjects fakeClient ''example.com/v1beta1'' (Kind widgets) (Some ''ns1'')
         (world (start vanished))
       = ((Some errAbsent, []), vanished\<lparr>clClock := 1\<rparr>)
   \<and> removeResourcesWithOpts fakeClient [] widgets (Some ''ns1'') (start vanished)
       = (None, \<lparr>world = vanished\<lparr>clClock := 1\<rparr>,
                 trace = [Call (CallListObjects ''example.com/v1beta1'' ''Widget'' (Some ''ns1''))
                            (Some errAbsent)]\<rparr>)
   \<and> sweepNamespaces fakeClient [] widgets [''ns1'', ''ns2''] (start vanished)
       = sweepNamespaces fakeClient [] widgets [''ns2'']
           \<lparr>world = vanished\<lparr>clClock := 1\<rparr>,
            trace = [Call (CallListObjects ''example.com/v1beta1'' ''Widget'' (Some ''ns1''))
                       (Some errAbsent)]\<rparr>"
proof -
  have h0: "IsNotFound errAbsent"
    by (simp add: errAbsent_def)
  have h1: "Scope widgets = NamespaceScoped" and k: "Kind widgets = ''Widget''"
    by (simp_all add: widgets_def)
  have h2: "clientListNamespaces fakeClient (world (start vanished))
              = ((Some errAbsent, []), vanished\<lparr>clClock := 1\<rparr>)"
    by (simp add: fakeClient_def fakeListNamespaces_def fault_def start_def vanished_def
        emptyCluster_def)
  have h3: "getAPIVersion widgets = Inr ''example.com/v1beta1''"
    by (simp add: getAPIVersion_def widgets_def)
  have h4: "clientListObjects fakeClient ''example.com/v1beta1'' (Kind widgets) (Some ''ns1'')
              (world (start vanished))
            = ((Some errAbsent, []), vanished\<lparr>clClock := 1\<rparr>)"
    by (simp add: fakeClient_def fakeListObjects_def fault_def start_def vanished_def
        emptyCluster_def)
  show ?thesis
    using h0 h1 h2 h3 h4
      list_not_found_is_tolerated [OF h0, of widgets fakeClient "start vanished"
        "vanished\<lparr>clClock := 1\<rparr>" "[]" "''example.com/v1beta1''" "Some ''ns1''" "''ns1''" "[''ns2'']"]
    by (simp add: start_def k)
qed

subsection \<open>No served version\<close>

text \<open>
  C4, as the code has it. The API version is the group, a slash and the name of the first
  version, in the listed order, that is served. When none is served the resolution fails
  with \<open>errNoServedVersion\<close>; the sweep of a scope then fails with it before any call, so
  no object list call and no patch call is issued. For a ClusterScoped CRD the sweep, and
  with it the target, fails with no call at all. For a NamespaceScoped CRD the namespace
  list call is issued first all the same, and the sweep fails exactly when that call lists
  a namespace.
\<close>

theorem getAPIVersion_first_served:
  "getAPIVersion crd =
     (case find Served (Versions crd) of
        Some v \<Rightarrow> Inr (Group crd @ ''/'' @ Name v)
      | None \<Rightarrow> Inl errNoServedVersion)
   \<and> (find Served (Versions crd) = None \<longrightarrow>
        removeResourcesWithOpts c lg crd opts s = (Some errNoServedVersion, s)
      \<and> (Scope crd = ClusterScoped \<longrightarrow>
           removeResources c lg crd s = (Some errNoServedVersion, s)
         \<and> (Get c name (logf InfoLevel lg msgNuking s0) = (Inr crd, s1) \<longrightarrow>
             Delete c crd s1 = (None, s) \<longrightarrow>
             nukeCRD c lg name s0 = (Some errNoServedVersion, s)))
      \<and> (Scope crd = NamespaceScoped \<longrightarrow>
           clientListNamespaces c (world s) = ((err, items), w) \<longrightarrow> tolerated err \<longrightarrow>
           removeResources c lg crd s =
             (if items = [] then None else Some errNoServedVersion,
              s\<lparr>world := w, trace := trace s @ [Call CallListNamespaces err]\<rparr>)))"
proof -
  have "getAPIVersion crd =
     (case find Served (Versions crd) of
        Some v \<Rightarrow> Inr (Group crd @ ''/'' @ Name v)
      | None \<Rightarrow> Inl errNoServedVersion)"
    by (simp add: getAPIVersion_def firstServed_find)
  moreover have "removeResources c lg crd s = (Some errNoServedVersion, s)"
    if "find Served (Versions crd) = None" "Scope crd = ClusterScoped"
    using that by (simp add: removeResources_def removeResourcesWithOpts_unserved)
  moreover have "nukeCRD c lg name s0 = (Some errNoServedVersion, s)"
    if "removeResources c lg crd s = (Some errNoServedVersion, s)"
      "Get c name (logf InfoLevel lg msgNuking s0) = (Inr crd, s1)"
      "Delete c crd s1 = (None, s)"
    using that by (simp add: nukeCRD_def)
  moreover have "removeResources c lg crd s =
             (if items = [] then None else Some errNoServedVersion,
              s\<lparr>world := w, trace := trace s @ [Call CallListNamespaces err]\<rparr>)"
    if "find Served (Versions crd) = None" "Scope crd = NamespaceScoped"
      "clientListNamespaces c (world s) = ((err, items), w)" "tolerated err"
    using that by (simp add: removeResources_namespaced sweepNamespaces_unserved)
  ultimately show ?thesis
    by (simp add: removeResourcesWithOpts_unserved)
qed

theorem no_list_calls_when_unserved_counterexample:
  "getAPIVersion (unserved widgets) = Inl errNoServedVersion
   \<and> nukeCRD fakeClient [] ''widgets.example.com'' (start unservedCluster)
     = (Some errNoServedVersion,
        \<lparr>world = unservedCluster\<lparr>clDeleting := True, clObjects := [widgetA, widgetB], clClock := 3\<rparr>,
         trace = [Log InfoLevel [] msgNuking,
                  Call (CallGet ''widgets.example.com'') None,
                  Call (CallDelete (unserved widgets)) None,
                  Call CallListNamespaces None]\<rparr>)"
  by (simp add: getAPIVersion_def unserved_def widgets_def nukeCRD_def Get_def Delete_def
      removeResources_def ListNamespaces_def removeResourcesWithOpts_def logf_def emit_def
      fakeClient_def fakeGet_def fakeDelete_def fakeListNamespaces_def fault_def servesCRD_def
      settle_def start_def unservedCluster_def widgetCluster_def emptyCluster_def
      widgetA_def widgetB_def widgetC_def errNoServedVersion_def)

theorem getAPIVersion_first_served_witness:
  "find Served (Versions gadgets) = None
   \<and> Scope gadgets = ClusterScoped
   \<and> Get fakeClient ''widgets.example.com'' (logf InfoLevel [] msgNuking (start gadgetCluster))
       = (Inr gadgets,
          \<lparr>world = gadgetCluster\<lparr>clClock := 1\<rparr>,
           trace = [Log InfoLevel [] msgNuking, Call (CallGet ''widgets.example.com'') None]\<rparr>)
   \<and> Delete fakeClient gadgets
         \<lparr>world = gadgetCluster\<lparr>clClock := 1\<rparr>,
          trace = [Log InfoLevel [] msgNuking, Call (CallGet ''widgets.example.com'') None]\<rparr>
       = (None,
          \<lparr>world = gadgetCluster\<lparr>clCRD := None, clDeleting := True, clClock := 2\<rparr>,
           trace = [Log InfoLevel [] msgNuking, Call (CallGet ''widgets.example.com'') None,
                    Call (CallDelete gadgets) None]\<rparr>)
   \<and> nukeCRD fakeClient [] ''widgets.example.com'' (start gadgetCluster)
       = (Some errNoServedVersion,
          \<lparr>world = gadgetCluster\<lparr>clCRD := None, clDeleting := True, clClock := 2\<rparr>,
           trace = [Log InfoLevel [] msgNuking, Call (CallGet ''widgets.example.com'') None,
                    Call (CallDelete gadgets) None]\<rparr>)
   \<and> find Served (Versions (unserved widgets)) = None
   \<and> Scope (unserved widgets) = NamespaceScoped
   \<and> clientListNamespaces fakeClient (world (start unservedCluster))
       = ((None, [''ns1'', ''ns2'']), unservedCluster\<lparr>clClock := 1\<rparr>)
   \<and> tolerated None
   \<and> getAPIVersion (unserved widgets) = Inl errNoServedVersion
   \<and> removeResources fakeClient [] (unserved widgets) (start unservedCluster)
       = (Some errNoServedVersion,
          \<lparr>world = unservedCluster\<lparr>clClock := 1\<rparr>, trace = [Call CallListNamespaces None]\<rparr>)"
proof -
  let ?s1 = "\<lparr>world = gadgetCluster\<lparr>clClock := 1\<rparr>,
           trace = [Log InfoLevel [] msgNuking, Call (CallGet ''widgets.example.com'') None]\<rparr>"
  let ?s2 = "\<lparr>world = gadgetCluster\<lparr>clCRD := None, clDeleting := True, clClock := 2\<rparr>,
           trace = [Log InfoLevel [] msgNuking, Call (CallGet ''widgets.example.com'') None,
                    Call (CallDelete gadgets) None]\<rparr>"
  have g1: "find Served (Versions gadgets) = None" and g2: "Scope gadgets = ClusterScoped"
    and g0: "crdName gadgets = ''widgets.example.com''"
    by (simp_all add: gadgets_def unserved_def clusterWide_def widgets_def)
  have g3: "Get fakeClient ''widgets.example.com'' (logf InfoLevel [] msgNuking (start gadgetCluster))
              = (Inr gadgets, ?s1)"
    by (simp add: Get_def logf_def emit_def fakeClient_def fakeGet_def fault_def servesCRD_def
        start_def gadgetCluster_def emptyCluster_def g0)
  have g4: "Delete fakeClient gadgets ?s1 = (None, ?s2)"
    by (simp add: Delete_def emit_def fakeClient_def fakeDelete_def fault_def servesCRD_def
        settle_def gadgetCluster_def emptyCluster_def g0)
  have w1: "find Served (Versions (unserved widgets)) = None"
    and w2: "Scope (unserved widgets) = NamespaceScoped"
    by (simp_all add: unserved_def widgets_def)
  have w3: "clientListNamespaces fakeClient (world (start unservedCluster))
              = ((None, [''ns1'', ''ns2'']), unservedCluster\<lparr>clClock := 1\<rparr>)"
    by (simp add: fakeClient_def fakeListNamespaces_def fault_def start_def unservedCluster_def
        widgetCluster_def emptyCluster_def)
  have w4: "tolerated None"
    by (simp add: tolerated_def)
  show ?thesis
    using g1 g2 g3 g4 w1 w2 w3 w4
      getAPIVersion_first_served [of gadgets fakeClient "[]" None ?s2 "''widgets.example.com''"
        "start gadgetCluster" ?s1]
      getAPIVersion_first_served [of "unserved widgets" fakeClient "[]" None
        "start unservedCluster" _ _ _ None "[''ns1'', ''ns2'']" "unservedCluster\<lparr>clClock := 1\<rparr>"]
    by (simp add: start_def)
qed

subsection \<open>Where a run can stop\<close>

lemma Patch_eq:
  "clientPatch c obj oldObj (world s) = (err, w) \<Longrightarrow>
   Patch c obj oldObj s =
     (err, s\<lparr>world := w, trace := trace s @ [Call (CallPatch obj oldObj) err]\<rparr>)"
  by (simp add: Patch_def emit_def)

lemma Delete_eq:
  "clientDelete c crd (world s) = (err, w) \<Longrightarrow>
   Delete c crd s = (err, s\<lparr>world := w, trace := trace s @ [Call (CallDelete crd) err]\<rparr>)"
  by (simp add: Delete_def emit_def)

lemma trace_logf: "trace (logf lvl lg msg s) = trace s @ [Log lvl lg msg]"
  by (simp add: logf_def emit_def)

lemma world_logf: "world (logf lvl lg msg s) = world s"
  by (simp add: logf_def emit_def)

lemma patchAbort_None: "patchAbort None tr \<Longrightarrow> \<forall>ev \<in> set tr. \<not> failedPatch ev"
  by (auto simp: patchAbort_def)

lemma patchAbort_clean: "\<forall>ev \<in> set tr. \<not> failedPatch ev \<Longrightarrow> patchAbort r tr"
  by (simp add: patchAbort_def)

lemma patchAbort_prepend:
  assumes "\<forall>ev \<in> set tr1. \<not> failedPatch ev" and "patchAbort r tr2"
  shows "patchAbort r (tr1 @ tr2)"
proof -
  from assms(2) consider (clean) "\<forall>ev \<in> set tr2. \<not> failedPatch ev"
    | (abort) pre obj oldObj err where "tr2 = pre @ [Call (CallPatch obj oldObj) (Some err)]"
        "\<forall>ev \<in> set pre. \<not> failedPatch ev"
        "r = Some (Errorf (''failed to delete '' @ objIdentOf oldObj @ '': '') err)"
    by (auto simp: patchAbort_def)
  then show ?thesis
  proof cases
    case clean
    with assms(1) show ?thesis by (auto simp: patchAbort_def)
  next
    case abort
    then have "tr1 @ tr2 = (tr1 @ pre) @ [Call (CallPatch obj oldObj) (Some err)]"
      and "\<forall>ev \<in> set (tr1 @ pre). \<not> failedPatch ev"
      using assms(1) by auto
    with abort(3) show ?thesis unfolding patchAbort_def by blast
  qed
qed

lemma sweepItems_patchAbort:
  "sweepItems c lg items s = (r, s') \<Longrightarrow> \<exists>tr. trace s' = trace s @ tr \<and> patchAbort r tr"
proof (induction items arbitrary: s)
  case Nil
  then show ?case by (simp add: patchAbort_def)
next
  case (Cons obj rest)
  show ?case
  proof (cases "objFinalizers obj = []")
    case True
    with Cons show ?thesis by simp
  next
    case False
    let ?s1 = "logf DebugLevel (lg @ [(''resource'', objIdentOf obj)]) msgNuking s"
    obtain err w where cp: "clientPatch c (SetFinalizers obj []) obj (world ?s1) = (err, w)"
      by (cases "clientPatch c (SetFinalizers obj []) obj (world ?s1)")
    let ?ev = "Call (CallPatch (SetFinalizers obj []) obj) err"
    let ?s2 = "?s1\<lparr>world := w, trace := trace ?s1 @ [?ev]\<rparr>"
    have p: "Patch c (SetFinalizers obj []) obj ?s1 = (err, ?s2)"
      by (rule Patch_eq [OF cp])
    have t2: "trace ?s2 = trace s @ [Log DebugLevel (lg @ [(''resource'', objIdentOf obj)]) msgNuking, ?ev]"
      by (simp add: trace_logf)
    show ?thesis
    proof (cases err)
      case None
      with Cons.prems False p have "sweepItems c lg rest ?s2 = (r, s')"
        by (simp add: Let_def)
      from Cons.IH [OF this] obtain tr where tr: "trace s' = trace ?s2 @ tr" "patchAbort r tr"
        by blast
      have a: "patchAbort r ([Log DebugLevel (lg @ [(''resource'', objIdentOf obj)]) msgNuking, ?ev] @ tr)"
        by (rule patchAbort_prepend [OF _ tr(2)]) (simp add: None)
      have "trace s' = trace s @ ([Log DebugLevel (lg @ [(''resource'', objIdentOf obj)]) msgNuking, ?ev] @ tr)"
        using tr(1) t2 by simp
      with a show ?thesis by blast
    next
      case (Some e)
      with Cons.prems False p
      have r: "r = Some (Errorf (''failed to delete '' @ objIdentOf obj @ '': '') e)" and s': "s' = ?s2"
        by (simp_all add: Let_def)
      have "patchAbort r ([Log DebugLevel (lg @ [(''resource'', objIdentOf obj)]) msgNuking]
               @ [Call (CallPatch (SetFinalizers obj []) obj) (Some e)])"
        unfolding patchAbort_def using r by (intro disjI2 exI conjI) (rule refl, simp, simp)
      moreover have "trace s' = trace s @ ([Log DebugLevel (lg @ [(''resource'', objIdentOf obj)]) msgNuking]
               @ [Call (CallPatch (SetFinalizers obj []) obj) (Some e)])"
        using s' t2 Some by simp
      ultimately show ?thesis by blast
    qed
  qed
qed

lemma removeResourcesWithOpts_patchAbort:
  assumes "removeResourcesWithOpts c lg crd opts s = (r, s')"
  shows "\<exists>tr. trace s' = trace s @ tr \<and> patchAbort r tr"
proof (cases "getAPIVersion crd")
  case (Inl e)
  with assms show ?thesis
    by (simp add: removeResourcesWithOpts_def patchAbort_def)
next
  case (Inr av)
  obtain err objs w where cl: "clientListObjects c av (Kind crd) opts (world s) = ((err, objs), w)"
    by (metis surj_pair)
  let ?s1 = "s\<lparr>world := w, trace := trace s @ [Call (CallListObjects av (Kind crd) opts) err]\<rparr>"
  note l = ListObjects_eq [OF cl]
  show ?thesis
  proof (cases "tolerated err")
    case True
    with assms Inr l have "sweepItems c lg objs ?s1 = (r, s')"
      by (simp add: removeResourcesWithOpts_def tolerated_def split: option.splits)
    from sweepItems_patchAbort [OF this] obtain tr where tr: "trace s' = trace ?s1 @ tr" "patchAbort r tr"
      by blast
    have a: "patchAbort r ([Call (CallListObjects av (Kind crd) opts) err] @ tr)"
      by (rule patchAbort_prepend [OF _ tr(2)]) simp
    have "trace s' = trace s @ ([Call (CallListObjects av (Kind crd) opts) err] @ tr)"
      using tr(1) by simp
    with a show ?thesis by blast
  next
    case False
    with assms Inr l have "s' = ?s1"
      by (auto simp: removeResourcesWithOpts_def tolerated_def split: option.splits)
    then have "trace s' = trace s @ [Call (CallListObjects av (Kind crd) opts) err]" by simp
    moreover have "patchAbort r [Call (CallListObjects av (Kind crd) opts) err]"
      by (simp add: patchAbort_def)
    ultimately show ?thesis by blast
  qed
qed

lemma sweepNamespaces_patchAbort:
  "sweepNamespaces c lg crd items s = (r, s') \<Longrightarrow>
   \<exists>tr. trace s' = trace s @ tr \<and> patchAbort r tr"
proof (induction items arbitrary: s)
  case Nil
  then show ?case by (simp add: patchAbort_def)
next
  case (Cons ns rest)
  obtain r1 s1 where step: "removeResourcesWithOpts c lg crd (Some ns) s = (r1, s1)"
    by (cases "removeResourcesWithOpts c lg crd (Some ns) s")
  from removeResourcesWithOpts_patchAbort [OF step]
  obtain tr1 where tr1: "trace s1 = trace s @ tr1" "patchAbort r1 tr1"
    by blast
  show ?case
  proof (cases r1)
    case None
    with Cons.prems step have "sweepNamespaces c lg crd rest s1 = (r, s')"
      by simp
    from Cons.IH [OF this] obtain tr where tr: "trace s' = trace s1 @ tr" "patchAbort r tr"
      by blast
    have "patchAbort r (tr1 @ tr)"
      using patchAbort_None tr1(2) None by (intro patchAbort_prepend [OF _ tr(2)]) blast
    moreover have "trace s' = trace s @ (tr1 @ tr)"
      using tr(1) tr1(1) by simp
    ultimately show ?thesis by blast
  next
    case (Some e)
    with Cons.prems step have "r = r1" "s' = s1"
      by simp_all
    with tr1 show ?thesis by blast
  qed
qed

lemma removeResources_patchAbort:
  assumes "removeResources c lg crd s = (r, s')"
  shows "\<exists>tr. trace s' = trace s @ tr \<and> patchAbort r tr"
proof (cases "Scope crd = NamespaceScoped")
  case False
  with assms show ?thesis
    by (simp add: removeResources_def removeResourcesWithOpts_patchAbort)
next
  case True
  obtain err items w where cl: "clientListNamespaces c (world s) = ((err, items), w)"
    by (metis surj_pair)
  let ?s1 = "s\<lparr>world := w, trace := trace s @ [Call CallListNamespaces err]\<rparr>"
  note l = ListNamespaces_eq [OF cl]
  show ?thesis
  proof (cases "tolerated err")
    case tol: True
    from assms removeResources_namespaced [OF True cl tol]
    have "sweepNamespaces c lg crd items ?s1 = (r, s')"
      by simp
    from sweepNamespaces_patchAbort [OF this]
    obtain tr where tr: "trace s' = trace ?s1 @ tr" "patchAbort r tr"
      by blast
    have a: "patchAbort r ([Call CallListNamespaces err] @ tr)"
      by (rule patchAbort_prepend [OF _ tr(2)]) simp
    have "trace s' = trace s @ ([Call CallListNamespaces err] @ tr)"
      using tr(1) by simp
    with a show ?thesis by blast
  next
    case False
    with assms True l have "s' = ?s1"
      by (auto simp: removeResources_def tolerated_def split: option.splits)
    then have "trace s' = trace s @ [Call CallListNamespaces err]" by simp
    moreover have "patchAbort r [Call CallListNamespaces err]"
      by (simp add: patchAbort_def)
    ultimately show ?thesis by blast
  qed
qed

subsection \<open>The events of the convergence wait\<close>

text \<open>What the convergence wait does, by the answers of its fetches.\<close>

lemma crdGone_cases:
  obtains (exists) crd w where "clientGet c name (world s) = (Inr crd, w)"
      "crdGone c name s =
         ((False, None), s\<lparr>world := w, trace := trace s @ [Call (CallGet name) None]\<rparr>)"
  | (gone) e w where "clientGet c name (world s) = (Inl e, w)" "IsNotFound e"
      "crdGone c name s =
         ((True, None), s\<lparr>world := w, trace := trace s @ [Call (CallGet name) (Some e)]\<rparr>)"
  | (failed) e w where "clientGet c name (world s) = (Inl e, w)" "\<not> IsNotFound e"
      "crdGone c name s =
         ((False, Some e), s\<lparr>world := w, trace := trace s @ [Call (CallGet name) (Some e)]\<rparr>)"
proof -
  obtain a w where g: "clientGet c name (world s) = (a, w)"
    by (cases "clientGet c name (world s)")
  show thesis
  proof (cases a)
    case (Inr crd)
    with g show thesis
      by (intro exists [of crd w]) (simp_all add: crdGone_def Get_Inr)
  next
    case (Inl e)
    with g show thesis
      by (cases "IsNotFound e") (auto intro: gone [of e w] failed [of e w] simp: crdGone_def Get_Inl)
  qed
qed

lemma waitTick_eq:
  "contextWait c interval timeout (world s) = (ended, w) \<Longrightarrow>
   waitTick c interval timeout s =
     (ended, s\<lparr>world := w, trace := trace s @ [Wait interval timeout ended]\<rparr>)"
  by (simp add: waitTick_def emit_def)

lemma concat_replicate_Suc_end: "concat (replicate (Suc k) xs) = concat (replicate k xs) @ xs"
  by (induction k) simp_all

lemma concat_replicate_shift:
  "x # concat (replicate k [y, x]) = concat (replicate k [x, y]) @ [x]"
  by (induction k) simp_all

lemma in_concat_replicate: "ev \<in> set (concat (replicate k xs)) \<Longrightarrow> ev \<in> set xs"
  by (induction k) auto

lemma pollTicks_crdGone:
  assumes "pollTicks n c interval timeout (crdGone c name) s = (r, s')"
  shows "(\<exists>k ended. k \<le> n \<and> (k = n \<longrightarrow> ended = DeadlineExceeded)
            \<and> trace s' = trace s
                @ concat (replicate k [Wait interval timeout None, Call (CallGet name) None])
                @ [Wait interval timeout (Some ended)]
            \<and> r = Some (ctxError ended))
       \<or> (\<exists>k e w. k < n
            \<and> trace s' = trace s
                @ concat (replicate k [Wait interval timeout None, Call (CallGet name) None])
                @ [Wait interval timeout None, Call (CallGet name) (Some e)]
            \<and> clientGet c name w = (Inl e, world s')
            \<and> r = (if IsNotFound e then None else Some e))"
  using assms
proof (induction n arbitrary: s)
  case 0
  then have "0 \<le> (0::nat) \<and> ((0::nat) = 0 \<longrightarrow> DeadlineExceeded = DeadlineExceeded)
            \<and> trace s' = trace s
                @ concat (replicate 0 [Wait interval timeout None, Call (CallGet name) None])
                @ [Wait interval timeout (Some DeadlineExceeded)]
            \<and> r = Some (ctxError DeadlineExceeded)"
    by (auto simp: emit_def)
  then show ?case by blast
next
  case (Suc n)
  let ?W = "Wait interval timeout None"
  let ?G = "Call (CallGet name) None"
  obtain ended w0 where cw: "contextWait c interval timeout (world s) = (ended, w0)"
    by (cases "contextWait c interval timeout (world s)")
  let ?s0 = "s\<lparr>world := w0, trace := trace s @ [Wait interval timeout ended]\<rparr>"
  note wt = waitTick_eq [OF cw]
  show ?case
  proof (cases ended)
    case (Some ce)
    with Suc.prems wt have "0 \<le> Suc n \<and> (0 = Suc n \<longrightarrow> ce = DeadlineExceeded)
            \<and> trace s' = trace s @ concat (replicate 0 [?W, ?G]) @ [Wait interval timeout (Some ce)]
            \<and> r = Some (ctxError ce)"
      by auto
    then show ?thesis by blast
  next
    case None
    show ?thesis
    proof (cases rule: crdGone_cases [of c name ?s0])
      case (exists crd w)
      let ?s1 = "?s0\<lparr>world := w, trace := trace ?s0 @ [?G]\<rparr>"
      from Suc.prems wt None exists(2)
      have "pollTicks n c interval timeout (crdGone c name) ?s1 = (r, s')"
        by simp
      from Suc.IH [OF this] show ?thesis
      proof (elim disjE exE conjE)
        fix k ce
        assume "k \<le> n" "k = n \<longrightarrow> ce = DeadlineExceeded"
          and "trace s' = trace ?s1 @ concat (replicate k [?W, ?G])
                 @ [Wait interval timeout (Some ce)]"
          and "r = Some (ctxError ce)"
        then have "Suc k \<le> Suc n \<and> (Suc k = Suc n \<longrightarrow> ce = DeadlineExceeded)
            \<and> trace s' = trace s @ concat (replicate (Suc k) [?W, ?G])
                @ [Wait interval timeout (Some ce)]
            \<and> r = Some (ctxError ce)"
          using None by simp
        then show ?thesis by blast
      next
        fix k e w'
        assume "k < n"
          and "trace s' = trace ?s1 @ concat (replicate k [?W, ?G])
                 @ [?W, Call (CallGet name) (Some e)]"
          and "clientGet c name w' = (Inl e, world s')"
          and "r = (if IsNotFound e then None else Some e)"
        then have "Suc k < Suc n
            \<and> trace s' = trace s @ concat (replicate (Suc k) [?W, ?G])
                @ [?W, Call (CallGet name) (Some e)]
            \<and> clientGet c name w' = (Inl e, world s')
            \<and> r = (if IsNotFound e then None else Some e)"
          using None by simp
        then show ?thesis by blast
      qed
    next
      case (gone e w)
      with Suc.prems wt None have "0 < Suc n
            \<and> trace s' = trace s @ concat (replicate 0 [?W, ?G])
                @ [?W, Call (CallGet name) (Some e)]
            \<and> clientGet c name w0 = (Inl e, world s')
            \<and> r = (if IsNotFound e then None else Some e)"
        by auto
      then show ?thesis by blast
    next
      case (failed e w)
      with Suc.prems wt None have "0 < Suc n
            \<and> trace s' = trace s @ concat (replicate 0 [?W, ?G])
                @ [?W, Call (CallGet name) (Some e)]
            \<and> clientGet c name w0 = (Inl e, world s')
            \<and> r = (if IsNotFound e then None else Some e)"
        by auto
      then show ?thesis by blast
    qed
  qed
qed

lemma poll_crdGone:
  assumes "PollUntilContextTimeout c interval timeout True (crdGone c name) s = (r, s')"
  shows "(\<exists>k ended. k \<le> timeout div interval
            \<and> (k = timeout div interval \<longrightarrow> ended = DeadlineExceeded)
            \<and> trace s' = trace s
                @ concat (replicate k [Call (CallGet name) None, Wait interval timeout None])
                @ [Call (CallGet name) None, Wait interval timeout (Some ended)]
            \<and> r = Some (ctxError ended))
       \<or> (\<exists>k e w. k \<le> timeout div interval
            \<and> trace s' = trace s
                @ concat (replicate k [Call (CallGet name) None, Wait interval timeout None])
                @ [Call (CallGet name) (Some e)]
            \<and> clientGet c name w = (Inl e, world s')
            \<and> r = (if IsNotFound e then None else Some e))"
proof (cases rule: crdGone_cases [of c name s])
  case (exists crd w)
  let ?W = "Wait interval timeout None"
  let ?G = "Call (CallGet name) None"
  let ?s1 = "s\<lparr>world := w, trace := trace s @ [?G]\<rparr>"
  from assms exists(2)
  have "pollTicks (timeout div interval) c interval timeout (crdGone c name) ?s1 = (r, s')"
    by (simp add: PollUntilContextTimeout_def)
  from pollTicks_crdGone [OF this] show ?thesis
  proof (elim disjE exE conjE)
    fix k ce
    assume "k \<le> timeout div interval" "k = timeout div interval \<longrightarrow> ce = DeadlineExceeded"
      and t: "trace s' = trace ?s1 @ concat (replicate k [?W, ?G])
             @ [Wait interval timeout (Some ce)]"
      and "r = Some (ctxError ce)"
    moreover from t have "trace s' = trace s @ concat (replicate k [?G, ?W])
             @ [?G, Wait interval timeout (Some ce)]"
      using concat_replicate_shift [of ?G k ?W] by simp
    ultimately show ?thesis by blast
  next
    fix k e w'
    assume k: "k < timeout div interval"
      and t: "trace s' = trace ?s1 @ concat (replicate k [?W, ?G])
             @ [?W, Call (CallGet name) (Some e)]"
      and g: "clientGet c name w' = (Inl e, world s')"
        "r = (if IsNotFound e then None else Some e)"
    from t have "trace s' = trace s @ (?G # concat (replicate k [?W, ?G]))
             @ [?W, Call (CallGet name) (Some e)]"
      by simp
    then have "trace s' = trace s @ concat (replicate (Suc k) [?G, ?W])
             @ [Call (CallGet name) (Some e)]"
      unfolding concat_replicate_shift concat_replicate_Suc_end by simp
    with k g have "Suc k \<le> timeout div interval
            \<and> trace s' = trace s @ concat (replicate (Suc k) [?G, ?W])
                @ [Call (CallGet name) (Some e)]
            \<and> clientGet c name w' = (Inl e, world s')
            \<and> r = (if IsNotFound e then None else Some e)"
      by simp
    then show ?thesis by blast
  qed
next
  case (gone e w)
  with assms have "0 \<le> timeout div interval
            \<and> trace s' = trace s
                @ concat (replicate 0 [Call (CallGet name) None, Wait interval timeout None])
                @ [Call (CallGet name) (Some e)]
            \<and> clientGet c name (world s) = (Inl e, world s')
            \<and> r = (if IsNotFound e then None else Some e)"
    by (auto simp: PollUntilContextTimeout_def)
  then show ?thesis by blast
next
  case (failed e w)
  with assms have "0 \<le> timeout div interval
            \<and> trace s' = trace s
                @ concat (replicate 0 [Call (CallGet name) None, Wait interval timeout None])
                @ [Call (CallGet name) (Some e)]
            \<and> clientGet c name (world s) = (Inl e, world s')
            \<and> r = (if IsNotFound e then None else Some e)"
    by (auto simp: PollUntilContextTimeout_def)
  then show ?thesis by blast
qed

lemma poll_crdGone_clean:
  assumes "PollUntilContextTimeout c interval timeout True (crdGone c name) s = (r, s')"
  shows "\<exists>tr. trace s' = trace s @ tr \<and> (\<forall>ev \<in> set tr. \<not> failedPatch ev)"
  using poll_crdGone [OF assms]
proof (elim disjE exE conjE)
  fix k ce
  assume "trace s' = trace s
           @ concat (replicate k [Call (CallGet name) None, Wait interval timeout None])
           @ [Call (CallGet name) None, Wait interval timeout (Some ce)]"
  moreover have "\<forall>ev \<in> set (concat (replicate k [Call (CallGet name) None, Wait interval timeout None])
           @ [Call (CallGet name) None, Wait interval timeout (Some ce)]). \<not> failedPatch ev"
    by (auto dest!: in_concat_replicate)
  ultimately show ?thesis by blast
next
  fix k e w
  assume "trace s' = trace s
           @ concat (replicate k [Call (CallGet name) None, Wait interval timeout None])
           @ [Call (CallGet name) (Some e)]"
  moreover have "\<forall>ev \<in> set (concat (replicate k [Call (CallGet name) None, Wait interval timeout None])
           @ [Call (CallGet name) (Some e)]). \<not> failedPatch ev"
    by (auto dest!: in_concat_replicate)
  ultimately show ?thesis by blast
qed

lemma pollBudget: "5 * Second div (100 * Millisecond) = 50"
  by (simp add: Second_def Millisecond_def)

lemma nukeCRD_cases [case_names absent getFailed deleteFailed sweepFailed swept]:
  obtains (absent) e w where
      "clientGet c name (world s) = (Inl e, w)" "IsNotFound e"
      "nukeCRD c lg name s =
         (None, s\<lparr>world := w,
                  trace := trace s @ [Log InfoLevel lg msgNuking, Call (CallGet name) (Some e),
                                      Log DebugLevel lg ''CRD does not exist.'']\<rparr>)"
  | (getFailed) e w where
      "clientGet c name (world s) = (Inl e, w)" "\<not> IsNotFound e"
      "nukeCRD c lg name s =
         (Some (Errorf ''failed to retrieve CRD: '' e),
          s\<lparr>world := w,
            trace := trace s @ [Log InfoLevel lg msgNuking, Call (CallGet name) (Some e)]\<rparr>)"
  | (deleteFailed) crd s1 e s2 where
      "Get c name (logf InfoLevel lg msgNuking s) = (Inr crd, s1)"
      "trace s1 = trace s @ [Log InfoLevel lg msgNuking, Call (CallGet name) None]"
      "Delete c crd s1 = (Some e, s2)"
      "trace s2 = trace s1 @ [Call (CallDelete crd) (Some e)]"
      "nukeCRD c lg name s = (Some (Errorf ''failed to delete CRD resource: '' e), s2)"
  | (sweepFailed) crd s1 s2 e s3 where
      "Get c name (logf InfoLevel lg msgNuking s) = (Inr crd, s1)"
      "trace s1 = trace s @ [Log InfoLevel lg msgNuking, Call (CallGet name) None]"
      "Delete c crd s1 = (None, s2)"
      "trace s2 = trace s1 @ [Call (CallDelete crd) None]"
      "removeResources c lg crd s2 = (Some e, s3)"
      "nukeCRD c lg name s = (Some e, s3)"
  | (swept) crd s1 s2 s3 where
      "Get c name (logf InfoLevel lg msgNuking s) = (Inr crd, s1)"
      "trace s1 = trace s @ [Log InfoLevel lg msgNuking, Call (CallGet name) None]"
      "Delete c crd s1 = (None, s2)"
      "trace s2 = trace s1 @ [Call (CallDelete crd) None]"
      "removeResources c lg crd s2 = (None, s3)"
proof -
  let ?s0 = "logf InfoLevel lg msgNuking s"
  obtain a w where g: "clientGet c name (world s) = (a, w)"
    by (cases "clientGet c name (world s)")
  then have g0: "clientGet c name (world ?s0) = (a, w)"
    by (simp add: world_logf)
  show thesis
  proof (cases a)
    case (Inl e)
    show thesis
    proof (cases "IsNotFound e")
      case True
      have "nukeCRD c lg name s =
         (None, s\<lparr>world := w,
                  trace := trace s @ [Log InfoLevel lg msgNuking, Call (CallGet name) (Some e),
                                      Log DebugLevel lg ''CRD does not exist.'']\<rparr>)"
        using g Inl True by (simp add: nukeCRD_def Get_def logf_def emit_def)
      with g Inl True show thesis
        by (intro absent [of e w]) simp_all
    next
      case False
      have "nukeCRD c lg name s =
         (Some (Errorf ''failed to retrieve CRD: '' e),
          s\<lparr>world := w,
            trace := trace s @ [Log InfoLevel lg msgNuking, Call (CallGet name) (Some e)]\<rparr>)"
        using g Inl False by (simp add: nukeCRD_def Get_def logf_def emit_def)
      with g Inl False show thesis
        by (intro getFailed [of e w]) simp_all
    qed
  next
    case (Inr crd)
    let ?s1 = "?s0\<lparr>world := w, trace := trace ?s0 @ [Call (CallGet name) None]\<rparr>"
    from Inr g0 have g1: "Get c name ?s0 = (Inr crd, ?s1)"
      by (simp add: Get_Inr)
    have t1: "trace ?s1 = trace s @ [Log InfoLevel lg msgNuking, Call (CallGet name) None]"
      by (simp add: trace_logf)
    obtain err w2 where d: "clientDelete c crd (world ?s1) = (err, w2)"
      by (cases "clientDelete c crd (world ?s1)")
    let ?s2 = "?s1\<lparr>world := w2, trace := trace ?s1 @ [Call (CallDelete crd) err]\<rparr>"
    note d1 = Delete_eq [OF d]
    have t2: "trace ?s2 = trace ?s1 @ [Call (CallDelete crd) err]"
      by simp
    show thesis
    proof (cases err)
      case (Some e)
      have "nukeCRD c lg name s = (Some (Errorf ''failed to delete CRD resource: '' e), ?s2)"
        using g1 d1 Some by (simp add: nukeCRD_def)
      with g1 t1 d1 t2 Some show thesis
        by (intro deleteFailed [of crd ?s1 e ?s2]) simp_all
    next
      case None
      obtain r3 s3 where sw: "removeResources c lg crd ?s2 = (r3, s3)"
        by (cases "removeResources c lg crd ?s2")
      show thesis
      proof (cases r3)
        case (Some e)
        have "nukeCRD c lg name s = (Some e, s3)"
          using g1 d1 None sw Some by (simp add: nukeCRD_def)
        with g1 t1 d1 t2 None sw Some show thesis
          by (intro sweepFailed [of crd ?s1 ?s2 e s3]) simp_all
      next
        case n3: None
        with g1 t1 d1 t2 None sw show thesis
          by (intro swept [of crd ?s1 ?s2 s3]) simp_all
      qed
    qed
  qed
qed

lemma nukeCRD_swept:
  assumes "Get c name (logf InfoLevel lg msgNuking s) = (Inr crd, s1)"
    and "Delete c crd s1 = (None, s2)"
    and "removeResources c lg crd s2 = (None, s3)"
    and "PollUntilContextTimeout c (100 * Millisecond) (5 * Second) True (crdGone c name) s3
           = (err, s4)"
  shows "nukeCRD c lg name s =
           (if Interrupted err then (None, logf WarnLevel lg msgStillExists s4)
            else (case err of
                    Some e \<Rightarrow> (Some (Errorf ''failed to check final CRD existence: '' e), s4)
                  | None \<Rightarrow> (None, s4)))"
  using assms by (simp add: nukeCRD_def)

lemma Interrupted_ctxError: "Interrupted (Some (ctxError ended))"
  by (cases ended) (simp_all add: Interrupted_def errDeadlineExceeded_def errContextCanceled_def)

lemma nukeCRD_wait_events:
  assumes "Get c name (logf InfoLevel lg msgNuking s) = (Inr crd, s1)"
    and "Delete c crd s1 = (None, s2)"
    and "removeResources c lg crd s2 = (None, s3)"
    and "nukeCRD c lg name s = (r, s')"
  shows "(\<exists>k ended. k \<le> 5 * Second div (100 * Millisecond)
            \<and> (k = 5 * Second div (100 * Millisecond) \<longrightarrow> ended = DeadlineExceeded)
            \<and> newEvents s3 s' =
                concat (replicate k [Call (CallGet name) None,
                                     Wait (100 * Millisecond) (5 * Second) None])
                  @ [Call (CallGet name) None,
                     Wait (100 * Millisecond) (5 * Second) (Some ended),
                     Log WarnLevel lg msgStillExists]
            \<and> r = None)
       \<or> (\<exists>k e. k \<le> 5 * Second div (100 * Millisecond)
            \<and> newEvents s3 s' =
                concat (replicate k [Call (CallGet name) None,
                                     Wait (100 * Millisecond) (5 * Second) None])
                  @ [Call (CallGet name) (Some e)]
                  @ (if \<not> IsNotFound e \<and> errIsContextDone e
                     then [Log WarnLevel lg msgStillExists] else [])
            \<and> r = (if IsNotFound e \<or> errIsContextDone e then None
                   else Some (Errorf ''failed to check final CRD existence: '' e)))"
proof -
  let ?G = "Call (CallGet name) None"
  let ?W = "Wait (100 * Millisecond) (5 * Second) None"
  obtain err s4 where
    p: "PollUntilContextTimeout c (100 * Millisecond) (5 * Second) True (crdGone c name) s3
          = (err, s4)"
    by (cases "PollUntilContextTimeout c (100 * Millisecond) (5 * Second) True
                 (crdGone c name) s3")
  note n = nukeCRD_swept [OF assms(1-3) p]
  from poll_crdGone [OF p] show ?thesis
  proof (elim disjE exE conjE)
    fix k ended
    assume k: "k \<le> 5 * Second div (100 * Millisecond)"
        "k = 5 * Second div (100 * Millisecond) \<longrightarrow> ended = DeadlineExceeded"
      and t: "trace s4 = trace s3 @ concat (replicate k [?G, ?W])
                @ [?G, Wait (100 * Millisecond) (5 * Second) (Some ended)]"
      and e: "err = Some (ctxError ended)"
    from n e assms(4) have "r = None" "s' = logf WarnLevel lg msgStillExists s4"
      by (simp_all add: Interrupted_ctxError)
    with t have "newEvents s3 s' = concat (replicate k [?G, ?W])
                @ [?G, Wait (100 * Millisecond) (5 * Second) (Some ended),
                   Log WarnLevel lg msgStillExists] \<and> r = None"
      by (simp add: newEvents_def trace_logf)
    with k show ?thesis by blast
  next
    fix k e w
    assume k: "k \<le> 5 * Second div (100 * Millisecond)"
      and t: "trace s4 = trace s3 @ concat (replicate k [?G, ?W])
                @ [Call (CallGet name) (Some e)]"
      and e: "err = (if IsNotFound e then None else Some e)"
    have "newEvents s3 s' =
                concat (replicate k [?G, ?W]) @ [Call (CallGet name) (Some e)]
                  @ (if \<not> IsNotFound e \<and> errIsContextDone e
                     then [Log WarnLevel lg msgStillExists] else [])
            \<and> r = (if IsNotFound e \<or> errIsContextDone e then None
                   else Some (Errorf ''failed to check final CRD existence: '' e))"
      using n e assms(4) t
      by (cases "IsNotFound e"; cases "errIsContextDone e")
        (auto simp: Interrupted_def newEvents_def trace_logf)
    with k show ?thesis by blast
  qed
qed

text \<open>
  C7, as the code has it. After the CRD has been fetched and deleted and the sweep has
  returned no error, the rest of \<open>nukeCRD\<close> is the poll: a fetch of the CRD by name at once,
  and after each fetch that finds the CRD a wait for the next tick of the timer of 100 ms
  under the timeout of 5 s, followed by the next fetch; at most 5 s div 100 ms ticks are
  waited for. The poll ends in one of two ways. Either a wait ends because the context is
  done, by then at the latest, with the deadline, or earlier, as the environment has it:
  then the warning is logged and no error is returned. Or a fetch fails: not-found ends the
  run with no error and no warning; an error of a cancelled or expired context ends it with
  the warning and no error, as a wait does; any other error is returned, wrapped, as the
  error of the target.
\<close>

theorem convergence_wait:
  assumes "Get c name (logf InfoLevel lg msgNuking s) = (Inr crd, s1)"
    and "Delete c crd s1 = (None, s2)"
    and "removeResources c lg crd s2 = (None, s3)"
    and "nukeCRD c lg name s = (r, s')"
  shows "(\<exists>k ended. k \<le> 5 * Second div (100 * Millisecond)
            \<and> (k = 5 * Second div (100 * Millisecond) \<longrightarrow> ended = DeadlineExceeded)
            \<and> newEvents s3 s' =
                concat (replicate k [Call (CallGet name) None,
                                     Wait (100 * Millisecond) (5 * Second) None])
                  @ [Call (CallGet name) None,
                     Wait (100 * Millisecond) (5 * Second) (Some ended),
                     Log WarnLevel lg msgStillExists]
            \<and> r = None)
       \<or> (\<exists>k e. k \<le> 5 * Second div (100 * Millisecond)
            \<and> newEvents s3 s' =
                concat (replicate k [Call (CallGet name) None,
                                     Wait (100 * Millisecond) (5 * Second) None])
                  @ [Call (CallGet name) (Some e)]
                  @ (if \<not> IsNotFound e \<and> errIsContextDone e
                     then [Log WarnLevel lg msgStillExists] else [])
            \<and> r = (if IsNotFound e \<or> errIsContextDone e then None
                   else Some (Errorf ''failed to check final CRD existence: '' e)))"
  using assms by (rule nukeCRD_wait_events)

theorem fetch_error_is_fatal_counterexample:
  "\<not> IsNotFound errCanceled
   \<and> nukeCRD fakeClient [] ''widgets.example.com''
       (start (bareCluster\<lparr>clFaults := [(5, errCanceled)]\<rparr>))
     = (None,
        \<lparr>world = bareCluster\<lparr>clCRD := None, clDeleting := True, clFaults := [(5, errCanceled)],
                               clClock := 6\<rparr>,
         trace = [Log InfoLevel [] msgNuking,
                  Call (CallGet ''widgets.example.com'') None,
                  Call (CallDelete widgets) None,
                  Call CallListNamespaces None,
                  Call (CallListObjects ''example.com/v1beta1'' ''Widget'' (Some ''ns1''))
                    (Some errAbsent),
                  Call (CallListObjects ''example.com/v1beta1'' ''Widget'' (Some ''ns2''))
                    (Some errAbsent),
                  Call (CallGet ''widgets.example.com'') (Some errCanceled),
                  Log WarnLevel [] msgStillExists]\<rparr>)"
  by (simp add: program_defs cluster_defs bareCluster_def errCanceled_def poll_numbers
      pollTicks_numeral)

theorem convergence_wait_witness:
  "Get fakeClient ''widgets.example.com''
       (logf InfoLevel [] msgNuking (start (blockedCluster\<lparr>clTicks := Some 2\<rparr>)))
     = (Inr widgets, fetched (blockedCluster\<lparr>clTicks := Some 2\<rparr>))
   \<and> Delete fakeClient widgets (fetched (blockedCluster\<lparr>clTicks := Some 2\<rparr>))
     = (None, deleted (blockedCluster\<lparr>clTicks := Some 2\<rparr>))
   \<and> removeResources fakeClient [] widgets (deleted (blockedCluster\<lparr>clTicks := Some 2\<rparr>))
     = (None, swept (blockedCluster\<lparr>clTicks := Some 2\<rparr>))
   \<and> nukeCRD fakeClient [] ''widgets.example.com'' (start (blockedCluster\<lparr>clTicks := Some 2\<rparr>))
     = (None,
        (swept (blockedCluster\<lparr>clTicks := Some 2\<rparr>))
          \<lparr>world := blockedCluster\<lparr>clDeleting := True, clClock := 8, clTicks := Some 0\<rparr>,
           trace := trace (swept (blockedCluster\<lparr>clTicks := Some 2\<rparr>))
             @ [Call (CallGet ''widgets.example.com'') None,
                Wait (100 * Millisecond) (5 * Second) None,
                Call (CallGet ''widgets.example.com'') None,
                Wait (100 * Millisecond) (5 * Second) None,
                Call (CallGet ''widgets.example.com'') None,
                Wait (100 * Millisecond) (5 * Second) (Some Canceled),
                Log WarnLevel [] msgStillExists]\<rparr>)
   \<and> ((\<exists>k ended. k \<le> 5 * Second div (100 * Millisecond)
          \<and> (k = 5 * Second div (100 * Millisecond) \<longrightarrow> ended = DeadlineExceeded)
          \<and> [Call (CallGet ''widgets.example.com'') None,
              Wait (100 * Millisecond) (5 * Second) None,
              Call (CallGet ''widgets.example.com'') None,
              Wait (100 * Millisecond) (5 * Second) None,
              Call (CallGet ''widgets.example.com'') None,
              Wait (100 * Millisecond) (5 * Second) (Some Canceled),
              Log WarnLevel [] msgStillExists]
            = concat (replicate k [Call (CallGet ''widgets.example.com'') None,
                                   Wait (100 * Millisecond) (5 * Second) None])
                @ [Call (CallGet ''widgets.example.com'') None,
                   Wait (100 * Millisecond) (5 * Second) (Some ended),
                   Log WarnLevel [] msgStillExists]
          \<and> (None :: error option) = None)
      \<or> (\<exists>k e. k \<le> 5 * Second div (100 * Millisecond)
          \<and> [Call (CallGet ''widgets.example.com'') None,
              Wait (100 * Millisecond) (5 * Second) None,
              Call (CallGet ''widgets.example.com'') None,
              Wait (100 * Millisecond) (5 * Second) None,
              Call (CallGet ''widgets.example.com'') None,
              Wait (100 * Millisecond) (5 * Second) (Some Canceled),
              Log WarnLevel [] msgStillExists]
            = concat (replicate k [Call (CallGet ''widgets.example.com'') None,
                                   Wait (100 * Millisecond) (5 * Second) None])
                @ [Call (CallGet ''widgets.example.com'') (Some e)]
                @ (if \<not> IsNotFound e \<and> errIsContextDone e
                   then [Log WarnLevel [] msgStillExists] else [])
          \<and> None = (if IsNotFound e \<or> errIsContextDone e then None
                     else Some (Errorf ''failed to check final CRD existence: '' e))))"
proof -
  let ?w = "blockedCluster\<lparr>clTicks := Some 2\<rparr>"
  let ?new = "[Call (CallGet ''widgets.example.com'') None,
                Wait (100 * Millisecond) (5 * Second) None,
                Call (CallGet ''widgets.example.com'') None,
                Wait (100 * Millisecond) (5 * Second) None,
                Call (CallGet ''widgets.example.com'') None,
                Wait (100 * Millisecond) (5 * Second) (Some Canceled),
                Log WarnLevel [] msgStillExists]"
  let ?s' = "(swept ?w)
          \<lparr>world := blockedCluster\<lparr>clDeleting := True, clClock := 8, clTicks := Some 0\<rparr>,
           trace := trace (swept ?w) @ ?new\<rparr>"
  have h1: "Get fakeClient ''widgets.example.com'' (logf InfoLevel [] msgNuking (start ?w))
              = (Inr widgets, fetched ?w)"
    by (simp add: fetched_def program_defs cluster_defs bareCluster_def blockedCluster_def)
  have h2: "Delete fakeClient widgets (fetched ?w) = (None, deleted ?w)"
    by (simp add: deleted_def fetched_def program_defs cluster_defs bareCluster_def
        blockedCluster_def)
  have h3: "removeResources fakeClient [] widgets (deleted ?w) = (None, swept ?w)"
    by (simp add: swept_def deleted_def fetched_def program_defs cluster_defs bareCluster_def
        blockedCluster_def)
  have h4: "nukeCRD fakeClient [] ''widgets.example.com'' (start ?w) = (None, ?s')"
    by (simp add: swept_def deleted_def fetched_def program_defs cluster_defs bareCluster_def
        blockedCluster_def poll_numbers pollTicks_numeral)
  have ev: "newEvents (swept ?w) ?s' = ?new"
    by (simp add: newEvents_def)
  from convergence_wait [OF h1 h2 h3 h4] h1 h2 h3 h4 show ?thesis
    unfolding ev by (intro conjI)
qed

subsection \<open>A failed patch ends the run\<close>

lemma nukeCRD_patchAbort:
  assumes "nukeCRD c lg name s = (r, s')"
  shows "\<exists>tr. trace s' = trace s @ tr \<and> patchAbort r tr"
proof (cases rule: nukeCRD_cases [of c name s lg])
  case (absent e w)
  with assms have "trace s' = trace s @ [Log InfoLevel lg msgNuking, Call (CallGet name) (Some e),
                                      Log DebugLevel lg ''CRD does not exist.'']"
    by auto
  moreover have "patchAbort r [Log InfoLevel lg msgNuking, Call (CallGet name) (Some e),
                                      Log DebugLevel lg ''CRD does not exist.'']"
    by (simp add: patchAbort_def)
  ultimately show ?thesis by blast
next
  case (getFailed e w)
  with assms have "trace s' = trace s @ [Log InfoLevel lg msgNuking, Call (CallGet name) (Some e)]"
    by auto
  moreover have "patchAbort r [Log InfoLevel lg msgNuking, Call (CallGet name) (Some e)]"
    by (simp add: patchAbort_def)
  ultimately show ?thesis by blast
next
  case (deleteFailed crd s1 e s2)
  with assms have "trace s' = trace s @ [Log InfoLevel lg msgNuking, Call (CallGet name) None,
      Call (CallDelete crd) (Some e)]"
    by auto
  moreover have "patchAbort r [Log InfoLevel lg msgNuking, Call (CallGet name) None,
      Call (CallDelete crd) (Some e)]"
    by (simp add: patchAbort_def)
  ultimately show ?thesis by blast
next
  case (sweepFailed crd s1 s2 e s3)
  from removeResources_patchAbort [OF sweepFailed(5)]
  obtain tr where tr: "trace s3 = trace s2 @ tr" "patchAbort (Some e) tr"
    by blast
  from assms sweepFailed(6) have rs: "r = Some e" "s' = s3"
    by simp_all
  have a: "patchAbort r ([Log InfoLevel lg msgNuking, Call (CallGet name) None,
      Call (CallDelete crd) None] @ tr)"
    unfolding rs by (rule patchAbort_prepend [OF _ tr(2)]) simp
  have "trace s' = trace s @ ([Log InfoLevel lg msgNuking, Call (CallGet name) None,
      Call (CallDelete crd) None] @ tr)"
    using rs tr(1) sweepFailed(2,4) by simp
  with a show ?thesis by blast
next
  case (swept crd s1 s2 s3)
  from removeResources_patchAbort [OF swept(5)]
  obtain tr where tr: "trace s3 = trace s2 @ tr" "patchAbort None tr"
    by blast
  let ?pre = "[Log InfoLevel lg msgNuking, Call (CallGet name) None, Call (CallDelete crd) None] @ tr"
  have t3: "trace s3 = trace s @ ?pre"
    using tr(1) swept(2,4) by simp
  have c3: "\<forall>ev \<in> set ?pre. \<not> failedPatch ev"
    using patchAbort_None [OF tr(2)] by simp
  obtain err s4 where
    p: "PollUntilContextTimeout c (100 * Millisecond) (5 * Second) True (crdGone c name) s3
          = (err, s4)"
    by (cases "PollUntilContextTimeout c (100 * Millisecond) (5 * Second) True
                 (crdGone c name) s3")
  from poll_crdGone_clean [OF p] obtain tr4 where
    t4: "trace s4 = trace s3 @ tr4" "\<forall>ev \<in> set tr4. \<not> failedPatch ev"
    by blast
  from nukeCRD_swept [OF swept(1,3,5) p] assms
  have "s' = s4 \<or> s' = logf WarnLevel lg msgStillExists s4"
    by (auto split: if_splits option.splits)
  with t4 obtain tl where tl: "trace s' = trace s3 @ tl" "\<forall>ev \<in> set tl. \<not> failedPatch ev"
    by (auto simp: trace_logf)
  with t3 have "trace s' = trace s @ (?pre @ tl)"
    by simp
  moreover have "patchAbort r (?pre @ tl)"
    using c3 tl(2) by (intro patchAbort_clean) auto
  ultimately show ?thesis by blast
qed

text \<open>
  C6. If a patch call of a run of \<open>nukeCRD\<close> fails, that call is the last thing the run does:
  no further instance and no further scope is swept, and the CRD is not polled for. The
  error returned is \<^verbatim>\<open>failed to delete\<close>, the namespace, a slash and the name of the
  instance, or the bare name when its namespace is empty, wrapping the error of the call.
\<close>

theorem patch_failure_aborts_target:
  assumes "nukeCRD c lg name s = (r, s')"
    and "Call (CallPatch obj oldObj) (Some err) \<in> set (newEvents s s')"
  shows "last (trace s') = Call (CallPatch obj oldObj) (Some err)
       \<and> Call (CallPatch obj oldObj) (Some err) \<notin> set (butlast (newEvents s s'))
       \<and> r = Some (Errorf (''failed to delete ''
                @ (if objNamespace oldObj = [] then objName oldObj
                   else objNamespace oldObj @ ''/'' @ objName oldObj) @ '': '') err)"
proof -
  let ?ev = "Call (CallPatch obj oldObj) (Some err)"
  from nukeCRD_patchAbort [OF assms(1)]
  obtain tr where tr: "trace s' = trace s @ tr" "patchAbort r tr"
    by blast
  then have n: "newEvents s s' = tr"
    by (simp add: newEvents_def)
  with assms(2) have "?ev \<in> set tr" "failedPatch ?ev"
    by simp_all
  with tr(2) obtain pre obj' old' err' where
    ab: "tr = pre @ [Call (CallPatch obj' old') (Some err')]"
      "\<forall>ev \<in> set pre. \<not> failedPatch ev"
      "r = Some (Errorf (''failed to delete '' @ objIdentOf old' @ '': '') err')"
    unfolding patchAbort_def by blast
  with \<open>?ev \<in> set tr\<close> \<open>failedPatch ?ev\<close> have same: "Call (CallPatch obj' old') (Some err') = ?ev"
    by auto
  with ab tr(1) n show ?thesis
    by (auto simp: objIdentOf_def)
qed

theorem patch_failure_aborts_target_witness:
  "trace (snd (nukeCRD fakeClient [] ''widgets.example.com'' (start patchFails)))
     = [Log InfoLevel [] msgNuking,
        Call (CallGet ''widgets.example.com'') None,
        Call (CallDelete widgets) None,
        Call CallListNamespaces None,
        Call (CallListObjects ''example.com/v1beta1'' ''Widget'' (Some ''ns1'')) None,
        Log DebugLevel [(''resource'', ''ns1/a'')] msgNuking,
        Call (CallPatch (widgetA\<lparr>objFinalizers := []\<rparr>) widgetA) (Some errRefused)]
   \<and> Call (CallPatch (widgetA\<lparr>objFinalizers := []\<rparr>) widgetA) (Some errRefused)
       \<in> set (newEvents (start patchFails)
                (snd (nukeCRD fakeClient [] ''widgets.example.com'' (start patchFails))))
   \<and> last (trace (snd (nukeCRD fakeClient [] ''widgets.example.com'' (start patchFails))))
       = Call (CallPatch (widgetA\<lparr>objFinalizers := []\<rparr>) widgetA) (Some errRefused)
   \<and> Call (CallPatch (widgetA\<lparr>objFinalizers := []\<rparr>) widgetA) (Some errRefused)
       \<notin> set (butlast (newEvents (start patchFails)
                (snd (nukeCRD fakeClient [] ''widgets.example.com'' (start patchFails)))))
   \<and> fst (nukeCRD fakeClient [] ''widgets.example.com'' (start patchFails))
       = Some (Errorf ''failed to delete ns1/a: '' errRefused)"
proof -
  let ?run = "nukeCRD fakeClient [] ''widgets.example.com'' (start patchFails)"
  let ?ev = "Call (CallPatch (widgetA\<lparr>objFinalizers := []\<rparr>) widgetA) (Some errRefused)"
  have t: "trace (snd ?run)
     = [Log InfoLevel [] msgNuking,
        Call (CallGet ''widgets.example.com'') None,
        Call (CallDelete widgets) None,
        Call CallListNamespaces None,
        Call (CallListObjects ''example.com/v1beta1'' ''Widget'' (Some ''ns1'')) None,
        Log DebugLevel [(''resource'', ''ns1/a'')] msgNuking, ?ev]"
    by (simp add: program_defs cluster_defs patchFails_def errRefused_def)
  have h1: "?run = (fst ?run, snd ?run)"
    by simp
  have h2: "?ev \<in> set (newEvents (start patchFails) (snd ?run))"
    unfolding newEvents_def t by (simp add: start_def)
  have ns: "objNamespace widgetA = ''ns1''" "objName widgetA = ''a''"
    by (simp_all add: widgetA_def)
  from patch_failure_aborts_target [OF h1 h2] t h2 show ?thesis
    by (simp add: ns)
qed

subsection \<open>The patch calls of the sweep\<close>

lemma patchCalls_append: "patchCalls (tr1 @ tr2) = patchCalls tr1 @ patchCalls tr2"
  by (induction tr1 rule: patchCalls.induct) simp_all

lemma sweepItems_patchCalls:
  "sweepItems c lg items s = (r, s') \<Longrightarrow>
   \<exists>tr. trace s' = trace s @ tr
      \<and> prefix (patchCalls tr) (map finalizersCleared (filter stuck items))
      \<and> (r = None \<longrightarrow> patchCalls tr = map finalizersCleared (filter stuck items))"
proof (induction items arbitrary: s)
  case Nil
  then show ?case by simp
next
  case (Cons obj rest)
  show ?case
  proof (cases "objFinalizers obj = []")
    case True
    with Cons show ?thesis by (simp add: stuck_def)
  next
    case False
    let ?log = "Log DebugLevel (lg @ [(''resource'', objIdentOf obj)]) msgNuking"
    let ?s1 = "logf DebugLevel (lg @ [(''resource'', objIdentOf obj)]) msgNuking s"
    obtain err w where cp: "clientPatch c (SetFinalizers obj []) obj (world ?s1) = (err, w)"
      by (cases "clientPatch c (SetFinalizers obj []) obj (world ?s1)")
    let ?ev = "Call (CallPatch (SetFinalizers obj []) obj) err"
    let ?s2 = "?s1\<lparr>world := w, trace := trace ?s1 @ [?ev]\<rparr>"
    have p: "Patch c (SetFinalizers obj []) obj ?s1 = (err, ?s2)"
      by (rule Patch_eq [OF cp])
    have t2: "trace ?s2 = trace s @ [?log, ?ev]"
      by (simp add: trace_logf)
    have pc: "patchCalls [?log, ?ev] = [finalizersCleared obj]"
      by (simp add: finalizersCleared_def SetFinalizers_def)
    show ?thesis
    proof (cases err)
      case None
      with Cons.prems False p have "sweepItems c lg rest ?s2 = (r, s')"
        by (simp add: Let_def)
      from Cons.IH [OF this] obtain tr where tr: "trace s' = trace ?s2 @ tr"
        "prefix (patchCalls tr) (map finalizersCleared (filter stuck rest))"
        "r = None \<longrightarrow> patchCalls tr = map finalizersCleared (filter stuck rest)"
        by blast
      have "trace s' = trace s @ ([?log, ?ev] @ tr)"
        using tr(1) t2 by simp
      moreover have "prefix (patchCalls ([?log, ?ev] @ tr))
                       (map finalizersCleared (filter stuck (obj # rest)))"
        unfolding patchCalls_append pc using tr(2) False by (simp add: stuck_def)
      moreover have "r = None \<longrightarrow> patchCalls ([?log, ?ev] @ tr)
                       = map finalizersCleared (filter stuck (obj # rest))"
        unfolding patchCalls_append pc using tr(3) False by (simp add: stuck_def)
      ultimately show ?thesis by blast
    next
      case (Some e)
      with Cons.prems False p have "r \<noteq> None" and "s' = ?s2"
        by (auto simp: Let_def)
      then have "trace s' = trace s @ [?log, ?ev]"
        using t2 by simp
      moreover have "prefix (patchCalls [?log, ?ev])
                       (map finalizersCleared (filter stuck (obj # rest)))"
        unfolding pc using False by (simp add: stuck_def)
      ultimately show ?thesis using \<open>r \<noteq> None\<close> by blast
    qed
  qed
qed

lemma MergeFrom_finalizersCleared:
  assumes "stuck oldObj"
  shows "MergeFrom oldObj (oldObj\<lparr>objFinalizers := []\<rparr>) = onlyFinalizers"
  using assms by (auto simp: MergeFrom_def changed_def onlyFinalizers_def stuck_def)

lemma applyPatch_onlyFinalizers: "applyPatch onlyFinalizers x = x\<lparr>objFinalizers := []\<rparr>"
  by (simp add: applyPatch_def onlyFinalizers_def)

text \<open>
  C5, as the code has it. The loop over the listed instances issues no patch call for an
  instance without finalizers. It patches the instances that have finalizers in the listed
  order, up to the first patch call that fails, and all of them when it returns no error.
  Every patch call passes the instance with its finalizers cleared and nothing else
  changed, against the original: the merge patch names the finalizers and no other field,
  and applied to any state of the instance it clears the finalizers and leaves every other
  field as it is.
\<close>

theorem sweepItems_clears_only_finalizers:
  assumes "sweepItems c lg items s = (r, s')"
  shows "prefix (patchCalls (newEvents s s'))
           (map (\<lambda>oldObj. (oldObj\<lparr>objFinalizers := []\<rparr>, oldObj))
              (filter (\<lambda>obj. objFinalizers obj \<noteq> []) items))
       \<and> (r = None \<longrightarrow>
            patchCalls (newEvents s s')
              = map (\<lambda>oldObj. (oldObj\<lparr>objFinalizers := []\<rparr>, oldObj))
                  (filter (\<lambda>obj. objFinalizers obj \<noteq> []) items))
       \<and> (\<forall>(obj, oldObj) \<in> set (patchCalls (newEvents s s')).
            objFinalizers oldObj \<noteq> [] \<and> obj = oldObj\<lparr>objFinalizers := []\<rparr>
            \<and> MergeFrom oldObj obj =
                \<lparr>patchName = None, patchNamespace = None, patchFinalizers = Some [],
                 patchContent = None\<rparr>
            \<and> (\<forall>x. applyPatch (MergeFrom oldObj obj) x = x\<lparr>objFinalizers := []\<rparr>))"
proof -
  from sweepItems_patchCalls [OF assms] obtain tr where tr: "trace s' = trace s @ tr"
    "prefix (patchCalls tr) (map finalizersCleared (filter stuck items))"
    "r = None \<longrightarrow> patchCalls tr = map finalizersCleared (filter stuck items)"
    by blast
  from tr(1) have n: "newEvents s s' = tr"
    by (simp add: newEvents_def)
  have eq: "map finalizersCleared (filter stuck items)
          = map (\<lambda>oldObj. (oldObj\<lparr>objFinalizers := []\<rparr>, oldObj))
              (filter (\<lambda>obj. objFinalizers obj \<noteq> []) items)"
    by (simp add: finalizersCleared_def [abs_def] stuck_def [abs_def])
  have "set (patchCalls tr) \<subseteq> set (map finalizersCleared (filter stuck items))"
    using tr(2) by (rule set_mono_prefix)
  then have each: "\<forall>(obj, oldObj) \<in> set (patchCalls tr).
             stuck oldObj \<and> obj = oldObj\<lparr>objFinalizers := []\<rparr>"
    by (auto simp: finalizersCleared_def)
  have "\<forall>(obj, oldObj) \<in> set (patchCalls tr).
            objFinalizers oldObj \<noteq> [] \<and> obj = oldObj\<lparr>objFinalizers := []\<rparr>
            \<and> MergeFrom oldObj obj =
                \<lparr>patchName = None, patchNamespace = None, patchFinalizers = Some [],
                 patchContent = None\<rparr>
            \<and> (\<forall>x. applyPatch (MergeFrom oldObj obj) x = x\<lparr>objFinalizers := []\<rparr>)"
  proof (clarify, intro conjI allI)
    fix obj oldObj x
    assume "(obj, oldObj) \<in> set (patchCalls tr)"
    with each have s: "stuck oldObj" and o: "obj = oldObj\<lparr>objFinalizers := []\<rparr>"
      by auto
    from s show "objFinalizers oldObj \<noteq> []" by (simp add: stuck_def)
    from o show "obj = oldObj\<lparr>objFinalizers := []\<rparr>" .
    from MergeFrom_finalizersCleared [OF s] o
    show "MergeFrom oldObj obj =
                \<lparr>patchName = None, patchNamespace = None, patchFinalizers = Some [],
                 patchContent = None\<rparr>"
      by (simp add: onlyFinalizers_def)
    from MergeFrom_finalizersCleared [OF s] o
    show "applyPatch (MergeFrom oldObj obj) x = x\<lparr>objFinalizers := []\<rparr>"
      by (simp add: applyPatch_onlyFinalizers)
  qed
  with tr(2,3) show ?thesis
    unfolding n eq by simp
qed

theorem every_stuck_instance_patched_counterexample:
  "objFinalizers widgetB \<noteq> []
   \<and> sweepItems fakeClient [] [widgetA, widgetB] (start firstPatchFails)
     = (Some (Errorf ''failed to delete ns1/a: '' errRefused),
        \<lparr>world = firstPatchFails\<lparr>clClock := 1\<rparr>,
         trace = [Log DebugLevel [(''resource'', ''ns1/a'')] msgNuking,
                  Call (CallPatch (widgetA\<lparr>objFinalizers := []\<rparr>) widgetA) (Some errRefused)]\<rparr>)"
  by (simp add: program_defs cluster_defs firstPatchFails_def errRefused_def)

theorem sweepItems_clears_only_finalizers_witness:
  "sweepItems fakeClient [] [widgetA, widgetB, widgetC] (start widgetCluster)
     = (None, snd (sweepItems fakeClient [] [widgetA, widgetB, widgetC] (start widgetCluster)))
   \<and> patchCalls (newEvents (start widgetCluster)
         (snd (sweepItems fakeClient [] [widgetA, widgetB, widgetC] (start widgetCluster))))
     = [(widgetA\<lparr>objFinalizers := []\<rparr>, widgetA), (widgetB\<lparr>objFinalizers := []\<rparr>, widgetB)]
   \<and> MergeFrom widgetA (widgetA\<lparr>objFinalizers := []\<rparr>)
     = \<lparr>patchName = None, patchNamespace = None, patchFinalizers = Some [], patchContent = None\<rparr>
   \<and> applyPatch (MergeFrom widgetB (widgetB\<lparr>objFinalizers := []\<rparr>))
        (widgetB\<lparr>objContent := [(''status.phase'', ''Terminating'')]\<rparr>)
     = widgetB\<lparr>objFinalizers := [], objContent := [(''status.phase'', ''Terminating'')]\<rparr>"
proof -
  let ?run = "sweepItems fakeClient [] [widgetA, widgetB, widgetC] (start widgetCluster)"
  have "fst ?run = None"
    by (simp add: program_defs cluster_defs)
  then have h: "?run = (None, snd ?run)"
    by (simp add: prod_eq_iff)
  have f: "filter (\<lambda>obj. objFinalizers obj \<noteq> []) [widgetA, widgetB, widgetC] = [widgetA, widgetB]"
    by (simp add: widgetA_def widgetB_def widgetC_def)
  have m1: "MergeFrom widgetA (widgetA\<lparr>objFinalizers := []\<rparr>)
     = \<lparr>patchName = None, patchNamespace = None, patchFinalizers = Some [], patchContent = None\<rparr>"
    by (simp add: MergeFrom_def changed_def widgetA_def)
  have m2: "applyPatch (MergeFrom widgetB (widgetB\<lparr>objFinalizers := []\<rparr>))
        (widgetB\<lparr>objContent := [(''status.phase'', ''Terminating'')]\<rparr>)
     = widgetB\<lparr>objFinalizers := [], objContent := [(''status.phase'', ''Terminating'')]\<rparr>"
    by (simp add: applyPatch_def MergeFrom_def changed_def widgetB_def)
  from sweepItems_clears_only_finalizers [OF h]
  have pc: "patchCalls (newEvents (start widgetCluster) (snd ?run))
     = [(widgetA\<lparr>objFinalizers := []\<rparr>, widgetA), (widgetB\<lparr>objFinalizers := []\<rparr>, widgetB)]"
    unfolding f by (simp del: sweepItems.simps)
  from h pc m1 m2 show ?thesis
    by (simp del: sweepItems.simps)
qed

subsection \<open>The list calls of the sweep\<close>










subsection \<open>Running twice\<close>

lemma nukeCRD_converged:
  assumes "nukeCRD c lg name s = (None, s1)"
    and "last (trace s1) \<noteq> Log WarnLevel lg msgStillExists"
  shows "\<exists>w e. clientGet c name w = (Inl e, world s1) \<and> IsNotFound e"
proof (cases rule: nukeCRD_cases [of c name s lg])
  case (absent e w)
  with assms(1) have "world s1 = w" by auto
  with absent show ?thesis by blast
next
  case (getFailed e w)
  with assms(1) show ?thesis by simp
next
  case (deleteFailed crd s1 e s2)
  with assms(1) show ?thesis by simp
next
  case (sweepFailed crd s1 s2 e s3)
  with assms(1) show ?thesis by simp
next
  case (swept crd s1' s2 s3)
  obtain err s4 where
    p: "PollUntilContextTimeout c (100 * Millisecond) (5 * Second) True (crdGone c name) s3
          = (err, s4)"
    by (cases "PollUntilContextTimeout c (100 * Millisecond) (5 * Second) True
                 (crdGone c name) s3")
  from nukeCRD_swept [OF swept(1,3,5) p] assms have e: "err = None" and s: "s1 = s4"
    by (auto simp: trace_logf split: if_splits option.splits)
  from poll_crdGone [OF p] e s show ?thesis
    by (auto split: if_splits)
qed

text \<open>
  C9, as the code has it. When a first run of \<open>nukeCRD\<close> has returned no error and has not
  ended with the warning that the CRD still exists, and a CRD that a fetch has found absent
  is still absent at the next fetch, a second run on the cluster state the first one left
  returns no error either, and it consists of the \<^verbatim>\<open>Nuking\<close> log line, one fetch and the
  debug line: no delete call, no list call and no patch call.
\<close>

theorem second_nukeCRD_is_noop:
  assumes "nukeCRD c lg name s = (None, s1)"
    and "last (trace s1) \<noteq> Log WarnLevel lg msgStillExists"
    and "staysAbsent c name"
  shows "\<exists>e w. IsNotFound e
           \<and> nukeCRD c lg name s1 =
               (None,
                s1\<lparr>world := w,
                   trace := trace s1 @ [Log InfoLevel lg msgNuking, Call (CallGet name) (Some e),
                                        Log DebugLevel lg ''CRD does not exist.'']\<rparr>)"
proof -
  from nukeCRD_converged [OF assms(1,2)] obtain w0 e0 where
    "clientGet c name w0 = (Inl e0, world s1)" "IsNotFound e0"
    by blast
  with assms(3) obtain e w where g: "clientGet c name (world s1) = (Inl e, w)" "IsNotFound e"
    unfolding staysAbsent_def by blast
  from nukeCRD_absent [OF g] g(2) show ?thesis
    by blast
qed

lemma poll_blocked:
  assumes "servesCRD (world s) name \<noteq> None" and "clFaults (world s) = []"
    and "clTicks (world s) = None"
  shows "pollTicks n fakeClient interval timeout (crdGone fakeClient name) s =
           (Some errDeadlineExceeded,
            s\<lparr>world := (world s)\<lparr>clClock := clClock (world s) + n\<rparr>,
              trace := trace s
                @ concat (replicate n [Wait interval timeout None, Call (CallGet name) None])
                @ [Wait interval timeout (Some DeadlineExceeded)]\<rparr>)"
  using assms
proof (induction n arbitrary: s)
  case 0
  then show ?case by (simp add: emit_def)
next
  case (Suc n)
  let ?s0 = "s\<lparr>trace := trace s @ [Wait interval timeout None]\<rparr>"
  let ?s1 = "s\<lparr>world := (world s)\<lparr>clClock := Suc (clClock (world s))\<rparr>,
               trace := trace s @ [Wait interval timeout None, Call (CallGet name) None]\<rparr>"
  from Suc.prems have wt: "waitTick fakeClient interval timeout s = (None, ?s0)"
    by (simp add: waitTick_def emit_def fakeClient_sel fakeWait_def)
  from Suc.prems have step: "crdGone fakeClient name ?s0 = ((False, None), ?s1)"
    by (auto simp: crdGone_def Get_def emit_def fakeClient_sel fakeGet_def fault_def
        servesCRD_def split: option.splits)
  from Suc.prems have "servesCRD (world ?s1) name \<noteq> None" "clFaults (world ?s1) = []"
    "clTicks (world ?s1) = None"
    by (simp_all add: servesCRD_def)
  from Suc.IH [OF this] wt step show ?case
    by simp
qed

theorem second_nukeCRD_is_noop_counterexample:
  "nukeCRD fakeClient [] ''widgets.example.com'' (start blockedCluster)
     = (None, \<lparr>world = blockedCluster\<lparr>clDeleting := True, clClock := 56\<rparr>,
               trace = blockedRound\<rparr>)
   \<and> nukeCRD fakeClient [] ''widgets.example.com''
       \<lparr>world = blockedCluster\<lparr>clDeleting := True, clClock := 56\<rparr>, trace = blockedRound\<rparr>
     = (None, \<lparr>world = blockedCluster\<lparr>clDeleting := True, clClock := 112\<rparr>,
               trace = blockedRound @ blockedRound\<rparr>)
   \<and> Call (CallDelete widgets) None \<in> set blockedRound"
proof -
  have "nukeCRD fakeClient [] ''widgets.example.com'' (start blockedCluster)
     = (None, \<lparr>world = blockedCluster\<lparr>clDeleting := True, clClock := 56\<rparr>,
               trace = blockedRound\<rparr>)"
    by (simp add: program_defs cluster_defs bareCluster_def blockedCluster_def poll_numbers
        poll_blocked blockedRound_def concat_replicate_shift)
  moreover have "nukeCRD fakeClient [] ''widgets.example.com''
       \<lparr>world = blockedCluster\<lparr>clDeleting := True, clClock := 56\<rparr>, trace = blockedRound\<rparr>
     = (None, \<lparr>world = blockedCluster\<lparr>clDeleting := True, clClock := 112\<rparr>,
               trace = blockedRound @ blockedRound\<rparr>)"
    by (simp add: program_defs cluster_defs bareCluster_def blockedCluster_def poll_numbers
        poll_blocked blockedRound_def concat_replicate_shift)
  moreover have "Call (CallDelete widgets) None \<in> set blockedRound"
    by (simp add: blockedRound_def)
  ultimately show ?thesis by simp
qed

lemma steadyClient_sel:
  "clientGet steadyClient = steadyGet" "clientDelete steadyClient = fakeDelete"
  "clientListNamespaces steadyClient = fakeListNamespaces"
  "clientListObjects steadyClient = fakeListObjects" "clientPatch steadyClient = fakePatch"
  "contextWait steadyClient = fakeWait"
  by (simp_all add: steadyClient_def fakeClient_def)

lemma staysAbsent_steadyClient: "staysAbsent steadyClient name"
  by (auto simp: staysAbsent_def steadyClient_sel steadyGet_def errAbsent_def
      split: option.splits)

theorem second_nukeCRD_is_noop_witness:
  "nukeCRD steadyClient [] ''widgets.example.com'' (start widgetCluster) = (None, afterFirstRun)
   \<and> trace afterFirstRun
     = [Log InfoLevel [] msgNuking,
        Call (CallGet ''widgets.example.com'') None,
        Call (CallDelete widgets) None,
        Call CallListNamespaces None,
        Call (CallListObjects ''example.com/v1beta1'' ''Widget'' (Some ''ns1'')) None,
        Log DebugLevel [(''resource'', ''ns1/a'')] msgNuking,
        Call (CallPatch (widgetA\<lparr>objFinalizers := []\<rparr>) widgetA) None,
        Call (CallListObjects ''example.com/v1beta1'' ''Widget'' (Some ''ns2'')) None,
        Log DebugLevel [(''resource'', ''ns2/b'')] msgNuking,
        Call (CallPatch (widgetB\<lparr>objFinalizers := []\<rparr>) widgetB) None,
        Call (CallGet ''widgets.example.com'') (Some errAbsent)]
   \<and> last (trace afterFirstRun) \<noteq> Log WarnLevel [] msgStillExists
   \<and> staysAbsent steadyClient ''widgets.example.com''
   \<and> (\<exists>e w. IsNotFound e
         \<and> nukeCRD steadyClient [] ''widgets.example.com'' afterFirstRun
           = (None,
              afterFirstRun
                \<lparr>world := w,
                 trace := trace afterFirstRun
                   @ [Log InfoLevel [] msgNuking, Call (CallGet ''widgets.example.com'') (Some e),
                      Log DebugLevel [] ''CRD does not exist.'']\<rparr>))"
proof -
  let ?run = "nukeCRD steadyClient [] ''widgets.example.com'' (start widgetCluster)"
  have "fst ?run = None"
    by (simp add: program_defs cluster_defs steadyClient_sel steadyGet_def poll_numbers
        pollTicks_numeral)
  then have h1: "?run = (None, afterFirstRun)"
    by (simp add: afterFirstRun_def prod_eq_iff)
  have t: "trace afterFirstRun
     = [Log InfoLevel [] msgNuking,
        Call (CallGet ''widgets.example.com'') None,
        Call (CallDelete widgets) None,
        Call CallListNamespaces None,
        Call (CallListObjects ''example.com/v1beta1'' ''Widget'' (Some ''ns1'')) None,
        Log DebugLevel [(''resource'', ''ns1/a'')] msgNuking,
        Call (CallPatch (widgetA\<lparr>objFinalizers := []\<rparr>) widgetA) None,
        Call (CallListObjects ''example.com/v1beta1'' ''Widget'' (Some ''ns2'')) None,
        Log DebugLevel [(''resource'', ''ns2/b'')] msgNuking,
        Call (CallPatch (widgetB\<lparr>objFinalizers := []\<rparr>) widgetB) None,
        Call (CallGet ''widgets.example.com'') (Some errAbsent)]"
    by (simp add: afterFirstRun_def program_defs cluster_defs steadyClient_sel steadyGet_def
        poll_numbers pollTicks_numeral)
  have h2: "last (trace afterFirstRun) \<noteq> Log WarnLevel [] msgStillExists"
    unfolding t by simp
  note h3 = staysAbsent_steadyClient [of "''widgets.example.com''"]
  from second_nukeCRD_is_noop [OF h1 h2 h3] h1 t h2 h3 show ?thesis
    by blast
qed

subsection \<open>The exit status\<close>

lemma length_nukeResults: "length (nukeResults c args s) = length args"
  by (induction args arbitrary: s) (simp_all add: Let_def split: prod.splits option.splits)

lemma nukeAll_success:
  "fst (nukeAll c args success s) = (success \<or> (\<exists>err. Some err \<in> set (nukeResults c args s)))"
  by (induction args arbitrary: success s)
    (auto simp: Let_def split: prod.splits option.splits)

lemma main_exit_status:
  "args \<noteq> [] \<Longrightarrow>
   fst (main c args s) = (if \<exists>err. Some err \<in> set (nukeResults c args s) then 0 else 1)"
  using nukeAll_success [of c args False s]
  by (auto simp: main_def split: prod.splits)

lemma ToLower_example: "ToLower ''Widgets.Example.COM'' = ''widgets.example.com''"
  by (simp add: ToLower_def)

text \<open>
  C1. The loop of \<open>main\<close> goes on after a target has failed, but the exit status is the
  wrong way round: \<^verbatim>\<open>success\<close> starts false and is set when a target fails. With one
  target, whose CRD does not exist and which \<open>nukeCRD\<close> therefore nukes without error, the
  process exits with 1. With two targets, the first of which fails at its fetch, the second
  is still processed, and the process logs that everything was nuked and exits with 0.
\<close>

theorem main_exit_status_inverted:
  "nukeResults fakeClient [''Widgets.Example.COM''] (start emptyCluster) = [None]
   \<and> main fakeClient [''Widgets.Example.COM''] (start emptyCluster)
     = (1, \<lparr>world = emptyCluster\<lparr>clClock := 1\<rparr>,
            trace = [Log InfoLevel [(''crd'', ''widgets.example.com'')] msgNuking,
                     Call (CallGet ''widgets.example.com'') (Some errAbsent),
                     Log DebugLevel [(''crd'', ''widgets.example.com'')] ''CRD does not exist.'']\<rparr>)
   \<and> nukeResults fakeClient [''gadgets.example.com'', ''Widgets.Example.COM''] (start firstGetFails)
     = [Some (Errorf ''failed to retrieve CRD: '' errRefused), None]
   \<and> main fakeClient [''gadgets.example.com'', ''Widgets.Example.COM''] (start firstGetFails)
     = (0, \<lparr>world = firstGetFails\<lparr>clClock := 2\<rparr>,
            trace = [Log InfoLevel [(''crd'', ''gadgets.example.com'')] msgNuking,
                     Call (CallGet ''gadgets.example.com'') (Some errRefused),
                     Log ErrorLevel [(''crd'', ''gadgets.example.com'')]
                       ''Failed to nuke: failed to retrieve CRD: connection refused'',
                     Log InfoLevel [(''crd'', ''widgets.example.com'')] msgNuking,
                     Call (CallGet ''widgets.example.com'') (Some errAbsent),
                     Log DebugLevel [(''crd'', ''widgets.example.com'')] ''CRD does not exist.'',
                     Log InfoLevel [] ''Everything nuked successfully.'']\<rparr>)"
proof -
  have l: "ToLower ''Widgets.Example.COM'' = ''widgets.example.com''"
    "ToLower ''gadgets.example.com'' = ''gadgets.example.com''"
    by (simp_all add: ToLower_def)
  show ?thesis
    by (simp add: main_def Let_def l program_defs cluster_defs firstGetFails_def errRefused_def)
qed

section \<open>Properties of the older variant\<close>

text \<open>
  In the older variant a list call that answers not-found fails the sweep, the sweep of a
  NamespaceScoped CRD ends with an unscoped object list call, so that it fails with
  \<open>errNoServedVersion\<close> also when there is no namespace, and the wait fetches once. A CRD
  that is absent at the first fetch is a run without effect there too.
\<close>

lemma removeResourcesWithOpts_v1_not_found:
  assumes "getAPIVersion crd = Inr av"
    and "clientListObjects c av (Kind crd) opts (world s) = ((Some e, items), w)"
  shows "removeResourcesWithOpts_v1 c lg crd opts s =
           (Some (Errorf ''failed to list objects: '' e),
            s\<lparr>world := w, trace := trace s @ [Call (CallListObjects av (Kind crd) opts) (Some e)]\<rparr>)"
  using assms by (simp add: removeResourcesWithOpts_v1_def ListObjects_eq)

lemma removeResources_v1_not_found:
  assumes "Scope crd = NamespaceScoped"
    and "clientListNamespaces c (world s) = ((Some e, items), w)"
  shows "removeResources_v1 c lg crd s =
           (Some (Errorf ''failed to list namespaces: '' e),
            s\<lparr>world := w, trace := trace s @ [Call CallListNamespaces (Some e)]\<rparr>)"
  using assms by (simp add: removeResources_v1_def ListNamespaces_eq)

lemma removeResources_v1_no_namespaces_unserved:
  assumes "Scope crd = NamespaceScoped"
    and "clientListNamespaces c (world s) = ((None, []), w)"
    and "find Served (Versions crd) = None"
  shows "removeResources_v1 c lg crd s =
           (Some errNoServedVersion,
            s\<lparr>world := w, trace := trace s @ [Call CallListNamespaces None]\<rparr>)"
  using assms
  by (simp add: removeResources_v1_def ListNamespaces_eq removeResourcesWithOpts_v1_def
      getAPIVersion_unserved)

lemma removeResources_v1_list_calls:
  "fst (removeResources_v1 fakeClient [] widgets (start widgetCluster)) = None
   \<and> listCalls (trace (snd (removeResources_v1 fakeClient [] widgets (start widgetCluster))))
     = [CallListNamespaces,
        CallListObjects ''example.com/v1beta1'' ''Widget'' (Some ''ns1''),
        CallListObjects ''example.com/v1beta1'' ''Widget'' (Some ''ns2''),
        CallListObjects ''example.com/v1beta1'' ''Widget'' None]"
  by (simp add: removeResources_v1_def removeResourcesWithOpts_v1_def program_defs cluster_defs)

lemma nukeCRD_v1_absent:
  assumes "clientGet c name (world s) = (Inl err, w)" and "IsNotFound err"
  shows "nukeCRD_v1 c lg name s =
           (None,
            s\<lparr>world := w,
              trace := trace s @ [Log InfoLevel lg msgNuking, Call (CallGet name) (Some err),
                                  Log DebugLevel lg ''CRD does not exist.'']\<rparr>)"
  using assms by (simp add: nukeCRD_v1_def Get_def logf_def emit_def)

lemma nukeCRD_v1_wait:
  assumes "Get c name (logf InfoLevel lg msgNuking s) = (Inr crd, s1)"
    and "Delete c crd s1 = (None, s2)"
    and "removeResources_v1 c lg crd s2 = (None, s3)"
    and "clientGet c name (world s3) = (a, w)"
  shows "nukeCRD_v1 c lg name s =
           (case a of
              Inr crd' \<Rightarrow>
                (None, s3\<lparr>world := w,
                          trace := trace s3 @ [Sleep (3 * Second), Call (CallGet name) None,
                                               Log WarnLevel lg msgStillExists]\<rparr>)
            | Inl e \<Rightarrow>
                (if IsNotFound e then None
                 else Some (Errorf ''failed to check final CRD existence: '' e),
                 s3\<lparr>world := w,
                    trace := trace s3 @ [Sleep (3 * Second), Call (CallGet name) (Some e)]\<rparr>))"
  using assms by (cases a) (simp_all add: nukeCRD_v1_def Get_def logf_def emit_def)

end
